theory Spec2Isabelle
  imports Main
begin

section \<open>Python values used by \<^verbatim>\<open>parse_html.py\<close>\<close>

text \<open>
  A Python 3 \<^verbatim>\<open>str\<close> is a sequence of Unicode code points, so a string is a list of
  naturals (the punctuation set of the script holds six code points above 255).
  \<open>u\<close> reads an ASCII literal.
\<close>

type_synonym pystr = "nat list"

definition u :: "string \<Rightarrow> pystr" where
  "u s = map of_char s"

text \<open>The exceptions the script can raise; only \<open>IndexError\<close> is caught by the main loop.\<close>

datatype error = IndexError | ValueError | AttributeError | TypeError | KeyError | Exception pystr

definition bind_e :: "error + 'a \<Rightarrow> ('a \<Rightarrow> error + 'b) \<Rightarrow> error + 'b" where
  "bind_e m f = (case m of Inl e \<Rightarrow> Inl e | Inr x \<Rightarrow> f x)"

text \<open>A list comprehension whose element expression may raise: the first failure wins.\<close>

fun map_e :: "('a \<Rightarrow> error + 'b) \<Rightarrow> 'a list \<Rightarrow> error + 'b list" where
  "map_e f [] = Inr []"
| "map_e f (x # xs) = bind_e (f x) (\<lambda>y. bind_e (map_e f xs) (\<lambda>ys. Inr (y # ys)))"

text \<open>\<^verbatim>\<open>xs[0]\<close>, \<^verbatim>\<open>xs[1]\<close> and \<^verbatim>\<open>xs[-1]\<close> raise IndexError out of range.\<close>

definition idx0 :: "'a list \<Rightarrow> error + 'a" where
  "idx0 xs = (case xs of [] \<Rightarrow> Inl IndexError | x # _ \<Rightarrow> Inr x)"

definition idx1 :: "'a list \<Rightarrow> error + 'a" where
  "idx1 xs = (case xs of x # y # _ \<Rightarrow> Inr y | _ \<Rightarrow> Inl IndexError)"

definition idx_last :: "'a list \<Rightarrow> error + 'a" where
  "idx_last xs = (if xs = [] then Inl IndexError else Inr (last xs))"

subsection \<open>\<^verbatim>\<open>str\<close> methods\<close>

text \<open>\<^verbatim>\<open>str.isspace\<close> on one code point: the characters \<^verbatim>\<open>strip()\<close> and \<^verbatim>\<open>split()\<close> treat as blank.\<close>

definition isspace :: "nat \<Rightarrow> bool" where
  "isspace c \<longleftrightarrow>
     (9 \<le> c \<and> c \<le> 13) \<or> (28 \<le> c \<and> c \<le> 32) \<or> c = 133 \<or> c = 160 \<or> c = 5760 \<or>
     (8192 \<le> c \<and> c \<le> 8202) \<or> c = 8232 \<or> c = 8233 \<or> c = 8239 \<or> c = 8287 \<or> c = 12288"

definition strip :: "pystr \<Rightarrow> pystr" where
  "strip s = rev (dropWhile isspace (rev (dropWhile isspace s)))"

text \<open>\<^verbatim>\<open>s.split()\<close>: the maximal runs of non-blank characters, in order.\<close>

fun split_acc :: "pystr \<Rightarrow> pystr \<Rightarrow> pystr list" where
  "split_acc cur [] = (if cur = [] then [] else [cur])"
| "split_acc cur (c # cs) =
     (if isspace c then (if cur = [] then split_acc [] cs else cur # split_acc [] cs)
      else split_acc (cur @ [c]) cs)"

definition split :: "pystr \<Rightarrow> pystr list" where
  "split s = split_acc [] s"

text \<open>\<^verbatim>\<open>sep.join(xs)\<close>.\<close>

fun join :: "pystr \<Rightarrow> pystr list \<Rightarrow> pystr" where
  "join sep [] = []"
| "join sep [x] = x"
| "join sep (x # y # ys) = x @ sep @ join sep (y # ys)"

definition startswith :: "pystr \<Rightarrow> pystr \<Rightarrow> bool" where
  "startswith s p \<longleftrightarrow> take (length p) s = p"

text \<open>\<^verbatim>\<open>sub in s\<close>.\<close>

fun contains :: "pystr \<Rightarrow> pystr \<Rightarrow> bool" where
  "contains sub [] = (sub = [])"
| "contains sub (c # cs) = (startswith (c # cs) sub \<or> contains sub cs)"

text \<open>
  \<^verbatim>\<open>s.lower()\<close>, restricted: the model lowers the letters A to Z and leaves every other
  code point as it is, where Python also lowers the cased letters beyond ASCII. The two
  agree on text whose capital letters are ASCII; no property below depends on the case
  mapping of a character.
\<close>

definition lower_char :: "nat \<Rightarrow> nat" where
  "lower_char c = (if 65 \<le> c \<and> c \<le> 90 then c + 32 else c)"

definition lower :: "pystr \<Rightarrow> pystr" where
  "lower s = map lower_char s"

subsection \<open>The regular expressions of the script\<close>

text \<open>
  Every pattern of the script is an alternation of literals, a character class, or
  \<^verbatim>\<open>value="(.+)"\<close>. \<open>first_alt\<close> is what an alternation matches at the start of a
  string: the first alternative, in the order written, that is a prefix.
\<close>

definition first_alt :: "pystr list \<Rightarrow> pystr \<Rightarrow> pystr option" where
  "first_alt alts s = find (\<lambda>a. startswith s a) alts"

text \<open>
  \<^verbatim>\<open>re.split(alts, s)\<close> scans from the left; the counter skips the characters of the
  match just found. The alternatives are non-empty literals at every call site.
\<close>

fun re_split_aux :: "pystr list \<Rightarrow> nat \<Rightarrow> pystr \<Rightarrow> pystr \<Rightarrow> pystr list" where
  "re_split_aux alts k cur [] = [cur]"
| "re_split_aux alts (Suc k) cur (c # cs) = re_split_aux alts k cur cs"
| "re_split_aux alts 0 cur (c # cs) =
     (case first_alt alts (c # cs) of
        Some a \<Rightarrow> cur # re_split_aux alts (length a - 1) [] cs
      | None \<Rightarrow> re_split_aux alts 0 (cur @ [c]) cs)"

definition re_split :: "pystr list \<Rightarrow> pystr \<Rightarrow> pystr list" where
  "re_split alts s = re_split_aux alts 0 [] s"

text \<open>\<^verbatim>\<open>s.split(sep)\<close> with a literal separator.\<close>

definition str_split :: "pystr \<Rightarrow> pystr \<Rightarrow> pystr list" where
  "str_split s sep = re_split [sep] s"

text \<open>\<^verbatim>\<open>re.findall(alts, s)\<close>: the non-overlapping matches, left to right.\<close>

fun re_findall_aux :: "pystr list \<Rightarrow> nat \<Rightarrow> pystr \<Rightarrow> pystr list" where
  "re_findall_aux alts k [] = []"
| "re_findall_aux alts (Suc k) (c # cs) = re_findall_aux alts k cs"
| "re_findall_aux alts 0 (c # cs) =
     (case first_alt alts (c # cs) of
        Some a \<Rightarrow> a # re_findall_aux alts (length a - 1) cs
      | None \<Rightarrow> re_findall_aux alts 0 cs)"

definition re_findall :: "pystr list \<Rightarrow> pystr \<Rightarrow> pystr list" where
  "re_findall alts s = re_findall_aux alts 0 s"

text \<open>\<^verbatim>\<open>s.replace(old, new)\<close> with a non-empty literal \<open>old\<close>.\<close>

fun replace_aux :: "pystr \<Rightarrow> pystr \<Rightarrow> nat \<Rightarrow> pystr \<Rightarrow> pystr" where
  "replace_aux old new k [] = []"
| "replace_aux old new (Suc k) (c # cs) = replace_aux old new k cs"
| "replace_aux old new 0 (c # cs) =
     (if startswith (c # cs) old then new @ replace_aux old new (length old - 1) cs
      else c # replace_aux old new 0 cs)"

definition replace :: "pystr \<Rightarrow> pystr \<Rightarrow> pystr \<Rightarrow> pystr" where
  "replace s old new = replace_aux old new 0 s"

text \<open>\<^verbatim>\<open>re.sub('[...]', ' ', s)\<close> for a character class: each member becomes a space.\<close>

definition sub_class :: "(nat \<Rightarrow> bool) \<Rightarrow> pystr \<Rightarrow> pystr" where
  "sub_class cls s = map (\<lambda>c. if cls c then 32 else c) s"

text \<open>
  \<^verbatim>\<open>string.punctuation.replace('-', '')\<close> followed by the en dash, the em dash and the
  four curly quotes. \<^verbatim>\<open>re.escape\<close> quotes the members, so the class
  \<^verbatim>\<open>'[%s]' % re.escape(punc)\<close> matches exactly these code points.
\<close>

definition punc :: pystr where
  "punc = [33, 34, 35, 36, 37, 38, 39, 40, 41, 42, 43, 44, 46, 47, 58, 59, 60, 61, 62, 63, 64,
           91, 92, 93, 94, 95, 96, 123, 124, 125, 126,
           8211, 8212, 8221, 8217, 8220, 8216]"

text \<open>
  \<^verbatim>\<open>\d\<close> in a pattern on \<^verbatim>\<open>str\<close> matches every Unicode decimal digit, and \<^verbatim>\<open>int()\<close>
  reads them all. The decimal digits come in runs of ten; \<open>digit_zeros\<close> lists the
  zero of each run (Unicode 14, the table of Python 3.11).
\<close>

definition digit_zeros :: "nat list" where
  "digit_zeros =
     [48, 1632, 1776, 1984, 2406, 2534, 2662, 2790, 2918, 3046, 3174, 3302, 3430, 3558, 3664,
      3792, 3872, 4160, 4240, 6112, 6160, 6470, 6608, 6784, 6800, 6992, 7088, 7232, 7248,
      42528, 43216, 43264, 43472, 43504, 43600, 44016, 65296, 66720, 68912, 69734, 69872,
      69942, 70096, 70384, 70736, 70864, 71248, 71360, 71472, 71904, 72016, 72784, 73040,
      73120, 92768, 92864, 93008, 120782, 120792, 120802, 120812, 120822, 123200, 123632,
      125264, 130032]"

definition digit_zero :: "nat \<Rightarrow> nat option" where
  "digit_zero c = (if c \<le> 57 then (if 48 \<le> c then Some 48 else None)
                  else find (\<lambda>z. z \<le> c \<and> c \<le> z + 9) digit_zeros)"

definition is_digit :: "nat \<Rightarrow> bool" where
  "is_digit c \<longleftrightarrow> digit_zero c \<noteq> None"

definition digit_val :: "nat \<Rightarrow> nat" where
  "digit_val c = (case digit_zero c of Some z \<Rightarrow> c - z | None \<Rightarrow> 0)"

definition is_alpha :: "nat \<Rightarrow> bool" where
  "is_alpha c \<longleftrightarrow> (65 \<le> c \<and> c \<le> 90) \<or> (97 \<le> c \<and> c \<le> 122)"

text \<open>
  \<^verbatim>\<open>re.search('value="(.+)"', s).group(1)\<close>: at the first place where \<^verbatim>\<open>value="\<close>
  is followed, on the same line, by at least one character and a closing quote, the
  text up to the last such quote (the group is greedy). \<open>None\<close> when nothing matches.
\<close>

definition greedy_to_quote :: "pystr \<Rightarrow> pystr option" where
  "greedy_to_quote s =
     (let line = takeWhile (\<lambda>c. c \<noteq> 10) s;
          body = rev (drop 1 (dropWhile (\<lambda>c. c \<noteq> 34) (rev line)))
      in if 34 \<in> set line \<and> body \<noteq> [] then Some body else None)"

fun search_value :: "pystr \<Rightarrow> pystr option" where
  "search_value [] = None"
| "search_value (c # cs) =
     (if startswith (c # cs) (u ''value='' @ [34])
      then (case greedy_to_quote (drop 7 (c # cs)) of
              Some g \<Rightarrow> Some g
            | None \<Rightarrow> search_value cs)
      else search_value cs)"

section \<open>The document tree\<close>

text \<open>
  The script works on the tree that the \<^verbatim>\<open>bs4\<close> library builds. A node is a string, a
  comment (a string subclass in the library) or a tag with its attributes and children.
\<close>

type_synonym attrs = "(pystr \<times> pystr) list"

datatype node = NavigableString pystr | Comment pystr | Tag pystr attrs "node list"

type_synonym soup = "node list"

fun contents :: "node \<Rightarrow> node list" where
  "contents (Tag n as cs) = cs"
| "contents _ = []"

text \<open>
  \<^verbatim>\<open>tag.string\<close>: the single string below a tag, through single-child tags; \<open>None\<close>
  when a tag on the way has no child or several.
\<close>

fun string_of :: "node \<Rightarrow> pystr option" where
  "string_of (NavigableString s) = Some s"
| "string_of (Comment s) = Some s"
| "string_of (Tag n as [c]) = string_of c"
| "string_of (Tag n as cs) = None"

definition string_e :: "node \<Rightarrow> error + pystr" where
  "string_e nd = (case string_of nd of None \<Rightarrow> Inl AttributeError | Some s \<Rightarrow> Inr s)"

text \<open>\<^verbatim>\<open>find_all(text=True)\<close>: every string of the tree, comments included, in document order.\<close>

fun texts :: "node \<Rightarrow> pystr list" where
  "texts (NavigableString s) = [s]"
| "texts (Comment s) = [s]"
| "texts (Tag n as cs) = concat (map texts cs)"

fun descendants :: "node \<Rightarrow> node list" where
  "descendants (Tag n as cs) = concat (map (\<lambda>c. c # descendants c) cs)"
| "descendants _ = []"

definition all_nodes :: "soup \<Rightarrow> node list" where
  "all_nodes sp = concat (map (\<lambda>c. c # descendants c) sp)"

subsection \<open>Serialisation\<close>

definition escape :: "pystr \<Rightarrow> pystr" where
  "escape s = concat (map (\<lambda>c. if c = 38 then u ''&amp;'' else if c = 60 then u ''&lt;''
                               else if c = 62 then u ''&gt;'' else [c]) s)"

definition void_tags :: "pystr list" where
  "void_tags = map u [''br'', ''hr'', ''input'', ''img'', ''meta'', ''spacer'', ''link'',
                      ''frame'', ''base'']"

definition attr_value :: "pystr \<Rightarrow> pystr" where
  "attr_value v =
     (let e = escape v in
      if 34 \<in> set e then
        (if 39 \<in> set e then [34] @ replace e [34] (u ''&quot;'') @ [34] else [39] @ e @ [39])
      else [34] @ e @ [34])"

definition attrs_str :: "attrs \<Rightarrow> pystr" where
  "attrs_str as = concat (map (\<lambda>(k, v). [32] @ k @ [61] @ attr_value v) as)"

text \<open>How a node is written inside its parent: text escaped, a childless void tag as \<^verbatim>\<open><br/>\<close>.\<close>

fun decode :: "node \<Rightarrow> pystr" where
  "decode (NavigableString s) = escape s"
| "decode (Comment s) = u ''<!--'' @ s @ u ''-->''"
| "decode (Tag n as cs) =
     (if cs = [] \<and> n \<in> set void_tags then [60] @ n @ attrs_str as @ u ''/>''
      else [60] @ n @ attrs_str as @ [62] @ concat (map decode cs) @ u ''</'' @ n @ [62])"

text \<open>
  \<^verbatim>\<open>str(x)\<close>: a string or comment object is its own text (the library defines no
  \<^verbatim>\<open>__str__\<close> for them), a tag is its markup.
\<close>

fun py_str :: "node \<Rightarrow> pystr" where
  "py_str (NavigableString s) = s"
| "py_str (Comment s) = s"
| "py_str (Tag n as cs) = decode (Tag n as cs)"

definition str_soup :: "soup \<Rightarrow> pystr" where
  "str_soup sp = concat (map decode sp)"

subsection \<open>Parsing a string\<close>

text \<open>
  \<^verbatim>\<open>BeautifulSoup(markup)\<close> with the standard library's tolerant parser, on the markup
  the script hands to it: text, start tags with attributes, end tags, comments, and the
  character references \<^verbatim>\<open>&amp; &lt; &gt; &quot; &nbsp;\<close>. A \<^verbatim>\<open><\<close> that opens no tag
  is text; an end tag that closes nothing is dropped; open tags are closed at the end.
  Not covered: a \<^verbatim>\<open>>\<close> inside a quoted attribute, raw \<^verbatim>\<open><\<close> inside a script, other
  character references, and declarations (kept as comment nodes).
\<close>

definition unescape :: "pystr \<Rightarrow> pystr" where
  "unescape s =
     replace (replace (replace (replace (replace s (u ''&lt;'') [60]) (u ''&gt;'') [62])
       (u ''&quot;'') [34]) (u ''&nbsp;'') [160]) (u ''&amp;'') [38]"

datatype astate = ASkip | AName pystr | AEq pystr | AQuoted pystr nat pystr | AUnq pystr pystr

fun parse_attrs :: "astate \<Rightarrow> pystr \<Rightarrow> attrs" where
  "parse_attrs ASkip [] = []"
| "parse_attrs ASkip (c # cs) =
     (if isspace c \<or> c = 47 then parse_attrs ASkip cs else parse_attrs (AName [c]) cs)"
| "parse_attrs (AName n) [] = [(lower n, [])]"
| "parse_attrs (AName n) (c # cs) =
     (if c = 61 then parse_attrs (AEq n) cs
      else if isspace c then (lower n, []) # parse_attrs ASkip cs
      else parse_attrs (AName (n @ [c])) cs)"
| "parse_attrs (AEq n) [] = [(lower n, [])]"
| "parse_attrs (AEq n) (c # cs) =
     (if c = 34 \<or> c = 39 then parse_attrs (AQuoted n c []) cs
      else if isspace c then parse_attrs (AEq n) cs
      else parse_attrs (AUnq n [c]) cs)"
| "parse_attrs (AQuoted n q v) [] = [(lower n, unescape v)]"
| "parse_attrs (AQuoted n q v) (c # cs) =
     (if c = q then (lower n, unescape v) # parse_attrs ASkip cs
      else parse_attrs (AQuoted n q (v @ [c])) cs)"
| "parse_attrs (AUnq n v) [] = [(lower n, unescape v)]"
| "parse_attrs (AUnq n v) (c # cs) =
     (if isspace c then (lower n, unescape v) # parse_attrs ASkip cs
      else parse_attrs (AUnq n (v @ [c])) cs)"

datatype token = TText pystr | TComment pystr | TStart pystr attrs bool | TEnd pystr

definition endswith :: "pystr \<Rightarrow> pystr \<Rightarrow> bool" where
  "endswith s p \<longleftrightarrow> startswith (rev s) (rev p)"

text \<open>The token for the characters found between \<^verbatim>\<open><\<close> and \<^verbatim>\<open>>\<close>.\<close>

definition make_tag :: "pystr \<Rightarrow> token" where
  "make_tag raw =
     (if startswith raw (u ''!--'') then TComment (take (length raw - 5) (drop 3 raw))
      else if startswith raw (u ''!'') then TComment (drop 1 raw)
      else if startswith raw (u ''/'') then TEnd (lower (takeWhile (\<lambda>c. \<not> isspace c) (drop 1 raw)))
      else
        (let sc = endswith raw (u ''/'');
             body = (if sc then butlast raw else raw)
         in TStart (lower (takeWhile (\<lambda>c. \<not> isspace c) body))
                   (parse_attrs ASkip (dropWhile (\<lambda>c. \<not> isspace c) body)) sc))"

definition tag_complete :: "pystr \<Rightarrow> bool" where
  "tag_complete raw \<longleftrightarrow>
     (if startswith raw (u ''!--'') then 5 \<le> length raw \<and> endswith raw (u ''--'') else True)"

definition text_tok :: "pystr \<Rightarrow> token list" where
  "text_tok cur = (if cur = [] then [] else [TText cur])"

datatype tstate = Txt pystr | Lt pystr | InTag pystr pystr

fun tokenize :: "tstate \<Rightarrow> pystr \<Rightarrow> token list" where
  "tokenize (Txt cur) [] = text_tok cur"
| "tokenize (Txt cur) (c # cs) =
     (if c = 60 then tokenize (Lt cur) cs else tokenize (Txt (cur @ [c])) cs)"
| "tokenize (Lt cur) [] = text_tok (cur @ [60])"
| "tokenize (Lt cur) (c # cs) =
     (if is_alpha c \<or> c = 47 \<or> c = 33 then tokenize (InTag cur [c]) cs
      else if c = 60 then tokenize (Lt (cur @ [60])) cs
      else tokenize (Txt (cur @ [60, c])) cs)"
| "tokenize (InTag cur raw) [] = text_tok (cur @ [60] @ raw)"
| "tokenize (InTag cur raw) (c # cs) =
     (if c = 62 \<and> tag_complete raw then text_tok cur @ make_tag raw # tokenize (Txt []) cs
      else tokenize (InTag cur (raw @ [c])) cs)"

text \<open>
  The tree builder keeps the open tags on a stack, innermost first, each with the
  children collected so far (latest first); the last frame is the document itself.
\<close>

type_synonym frame = "pystr \<times> attrs \<times> node list"

fun close_top :: "frame list \<Rightarrow> frame list" where
  "close_top ((n, as, ch) # (n', as', ch') # st) = (n', as', Tag n as (rev ch) # ch') # st"
| "close_top st = st"

fun add_node :: "node \<Rightarrow> frame list \<Rightarrow> frame list" where
  "add_node x ((n, as, ch) # st) = (n, as, x # ch) # st"
| "add_node x [] = []"

text \<open>An end tag closes the nearest open tag of its name and everything opened inside it.\<close>

definition pop_to :: "pystr \<Rightarrow> frame list \<Rightarrow> frame list" where
  "pop_to n st =
     (let opened = map fst (butlast st)
      in if n \<in> set opened
         then (close_top ^^ (Suc (length (takeWhile (\<lambda>m. m \<noteq> n) opened)))) st
         else st)"

text \<open>
  A string of ASCII blanks only is stored as one newline, or one space when it has no
  newline, unless it stands inside \<^verbatim>\<open>pre\<close> or \<^verbatim>\<open>textarea\<close>.
\<close>

definition end_data :: "frame list \<Rightarrow> pystr \<Rightarrow> pystr" where
  "end_data st s =
     (if (\<forall>c \<in> set s. c \<in> set [32, 10, 9, 12, 13]) \<and>
         (\<forall>m \<in> set (map fst st). m \<notin> set [u ''pre'', u ''textarea''])
      then (if 10 \<in> set s then [10] else [32])
      else s)"

fun build :: "token list \<Rightarrow> frame list \<Rightarrow> node list" where
  "build [] st =
     (case (close_top ^^ (length st - 1)) st of (n, as, ch) # _ \<Rightarrow> rev ch | [] \<Rightarrow> [])"
| "build (TText s # ts) st =
     build ts (add_node (NavigableString (end_data st (unescape s))) st)"
| "build (TComment s # ts) st = build ts (add_node (Comment s) st)"
| "build (TStart n as sc # ts) st =
     (if sc \<or> n \<in> set void_tags then build ts (add_node (Tag n as []) st)
      else build ts ((n, as, []) # st))"
| "build (TEnd n # ts) st = build ts (pop_to n st)"

definition BeautifulSoup :: "pystr \<Rightarrow> soup" where
  "BeautifulSoup markup = build (tokenize (Txt []) markup) [([], [], [])]"

subsection \<open>Queries\<close>

text \<open>
  A selector of the script is a chain of compound selectors separated by blanks
  (descendant combinators); a compound is an optional tag name followed by at most one
  \<^verbatim>\<open>#id\<close> or \<^verbatim>\<open>.class\<close>.
\<close>

datatype simple = Simple "pystr option" "pystr option" "pystr option"

definition parse_compound :: "pystr \<Rightarrow> simple" where
  "parse_compound tok =
     (let t = takeWhile (\<lambda>c. c \<noteq> 35 \<and> c \<noteq> 46) tok;
          r = dropWhile (\<lambda>c. c \<noteq> 35 \<and> c \<noteq> 46) tok
      in Simple (if t = [] then None else Some t)
                (if startswith r [35] then Some (drop 1 r) else None)
                (if startswith r [46] then Some (drop 1 r) else None))"

fun matches :: "simple \<Rightarrow> node \<Rightarrow> bool" where
  "matches (Simple t i k) (Tag n as cs) \<longleftrightarrow>
     (case t of None \<Rightarrow> True | Some t' \<Rightarrow> n = t') \<and>
     (case i of None \<Rightarrow> True | Some i' \<Rightarrow> map_of as (u ''id'') = Some i') \<and>
     (case k of None \<Rightarrow> True
      | Some k' \<Rightarrow> (case map_of as (u ''class'') of None \<Rightarrow> False | Some v \<Rightarrow> k' \<in> set (split v)))"
| "matches s _ \<longleftrightarrow> False"

text \<open>
  \<open>sel pend lst nd\<close>: the tags at or below \<open>nd\<close> that match \<open>lst\<close> once the compounds
  \<open>pend\<close> have been matched, in order, by tags above them.
\<close>

fun sel :: "simple list \<Rightarrow> simple \<Rightarrow> node \<Rightarrow> node list" where
  "sel pend lst (Tag n as cs) =
     (case pend of
        [] \<Rightarrow> (if matches lst (Tag n as cs) then [Tag n as cs] else []) @
               concat (map (sel [] lst) cs)
      | c # rest \<Rightarrow>
          concat (map (sel (if matches c (Tag n as cs) then rest else c # rest) lst) cs))"
| "sel pend lst _ = []"

definition select :: "string \<Rightarrow> soup \<Rightarrow> node list" where
  "select css sp =
     (case rev (map parse_compound (split (u css))) of
        [] \<Rightarrow> []
      | lst # pre \<Rightarrow> concat (map (sel (rev pre) lst) sp))"

text \<open>\<^verbatim>\<open>soup.find(name, {attr: value})\<close>: the first such tag in document order, or None.\<close>

fun has_attrs :: "pystr \<Rightarrow> attrs \<Rightarrow> node \<Rightarrow> bool" where
  "has_attrs name want (Tag n as cs) \<longleftrightarrow>
     n = name \<and> (\<forall>(k, v) \<in> set want. map_of as k = Some v)"
| "has_attrs name want _ \<longleftrightarrow> False"

definition find_tag :: "string \<Rightarrow> (string \<times> string) list \<Rightarrow> soup \<Rightarrow> node option" where
  "find_tag name want sp =
     find (has_attrs (u name) (map (\<lambda>(k, v). (u k, u v)) want)) (all_nodes sp)"

definition get_attr :: "node \<Rightarrow> string \<Rightarrow> error + pystr" where
  "get_attr nd k =
     (case nd of
        Tag n as cs \<Rightarrow> (case map_of as (u k) of None \<Rightarrow> Inl KeyError | Some v \<Rightarrow> Inr v)
      | _ \<Rightarrow> Inl TypeError)"

section \<open>Dates\<close>

text \<open>
  \<^verbatim>\<open>datetime.strptime(data, format)\<close> in the C locale, for the directives the script
  uses. The library turns the format into a regular expression (a run of blanks becomes
  \<^verbatim>\<open>\s+\<close>, each directive an alternation tried in the order written), matches it
  against the start of the data ignoring case, and then refuses data that is left over.
  \<open>cands\<close> lists what one directive can match at the start of a string, best candidate
  first, each with the number it stands for. A name counts when its lower-cased text is
  the name: the pattern also lets a dotless i, a long s or a dotted capital I stand for
  a letter, and the table lookup after it then raises the same ValueError.
\<close>

record datetime =
  year :: nat
  month :: nat
  day :: nat
  hour :: nat
  minute :: nat

datatype directive = D_a | D_A | D_b | D_B | D_d | D_m | D_Y | D_H | D_M | Lit nat | Spaces | D_bad

definition directive_of :: "nat \<Rightarrow> directive" where
  "directive_of c =
     (if c = 97 then D_a else if c = 65 then D_A else if c = 98 then D_b else if c = 66 then D_B
      else if c = 100 then D_d else if c = 109 then D_m else if c = 89 then D_Y
      else if c = 72 then D_H else if c = 77 then D_M else D_bad)"

fun parse_format :: "pystr \<Rightarrow> directive list" where
  "parse_format [] = []"
| "parse_format [c] = (if isspace c then [Spaces] else [Lit c])"
| "parse_format (c # d # cs) =
     (if c = 37 then directive_of d # parse_format cs
      else if isspace c then
        (if isspace d then parse_format (d # cs) else Spaces # parse_format (d # cs))
      else Lit c # parse_format (d # cs))"

definition int_of_digits :: "pystr \<Rightarrow> nat" where
  "int_of_digits s = foldl (\<lambda>a c. if is_digit c then 10 * a + digit_val c else a) 0 s"

fun names_cands :: "nat \<Rightarrow> pystr list \<Rightarrow> pystr \<Rightarrow> (nat \<times> pystr) list" where
  "names_cands i [] s = []"
| "names_cands i (n # ns) s =
     (if lower (take (length n) s) = n then [(i, drop (length n) s)] else []) @
     names_cands (Suc i) ns s"

fun match_classes :: "(nat \<Rightarrow> bool) list \<Rightarrow> pystr \<Rightarrow> bool" where
  "match_classes [] s \<longleftrightarrow> True"
| "match_classes (p # ps) [] \<longleftrightarrow> False"
| "match_classes (p # ps) (c # cs) \<longleftrightarrow> p c \<and> match_classes ps cs"

definition class_cands :: "(nat \<Rightarrow> bool) list list \<Rightarrow> pystr \<Rightarrow> (nat \<times> pystr) list" where
  "class_cands alts s =
     concat (map (\<lambda>ps. if match_classes ps s
                         then [(int_of_digits (take (length ps) s), drop (length ps) s)]
                         else []) alts)"

definition one :: "nat \<Rightarrow> nat \<Rightarrow> bool" where
  "one c x \<longleftrightarrow> x = c"

definition rng :: "nat \<Rightarrow> nat \<Rightarrow> nat \<Rightarrow> bool" where
  "rng a b x \<longleftrightarrow> a \<le> x \<and> x \<le> b"

definition a_weekday :: "pystr list" where
  "a_weekday = map u [''mon'', ''tue'', ''wed'', ''thu'', ''fri'', ''sat'', ''sun'']"

definition f_weekday :: "pystr list" where
  "f_weekday = map u [''monday'', ''tuesday'', ''wednesday'', ''thursday'', ''friday'',
                      ''saturday'', ''sunday'']"

definition a_month :: "pystr list" where
  "a_month = map u [''jan'', ''feb'', ''mar'', ''apr'', ''may'', ''jun'', ''jul'', ''aug'',
                    ''sep'', ''oct'', ''nov'', ''dec'']"

definition f_month :: "pystr list" where
  "f_month = map u [''january'', ''february'', ''march'', ''april'', ''may'', ''june'', ''july'',
                    ''august'', ''september'', ''october'', ''november'', ''december'']"

text \<open>
  The library sorts the names of an alternation by length; no name is a prefix of
  another, so at most one of them matches and the order does not show.
\<close>

fun cands :: "directive \<Rightarrow> pystr \<Rightarrow> (nat \<times> pystr) list" where
  "cands D_a s = names_cands 0 a_weekday s"
| "cands D_A s = names_cands 0 f_weekday s"
| "cands D_b s = names_cands 1 a_month s"
| "cands D_B s = names_cands 1 f_month s"
| "cands D_d s = class_cands [[one 51, rng 48 49], [rng 49 50, is_digit], [one 48, rng 49 57],
                              [rng 49 57], [one 32, rng 49 57]] s"
| "cands D_m s = class_cands [[one 49, rng 48 50], [one 48, rng 49 57], [rng 49 57]] s"
| "cands D_Y s = class_cands [[is_digit, is_digit, is_digit, is_digit]] s"
| "cands D_H s = class_cands [[one 50, rng 48 51], [rng 48 49, is_digit], [is_digit]] s"
| "cands D_M s = class_cands [[rng 48 53, is_digit], [is_digit]] s"
| "cands (Lit c) s = (case s of [] \<Rightarrow> [] | x # xs \<Rightarrow> if lower_char x = lower_char c then [(0, xs)] else [])"
| "cands Spaces s =
     map (\<lambda>n. (0, drop n s)) (rev [1..<Suc (length (takeWhile isspace s))])"
| "cands D_bad s = []"

fun first_some :: "('a \<Rightarrow> 'b option) \<Rightarrow> 'a list \<Rightarrow> 'b option" where
  "first_some f [] = None"
| "first_some f (x # xs) = (case f x of Some y \<Rightarrow> Some y | None \<Rightarrow> first_some f xs)"

fun strp_match :: "directive list \<Rightarrow> pystr \<Rightarrow> (directive \<times> nat) list
                   \<Rightarrow> ((directive \<times> nat) list \<times> pystr) option" where
  "strp_match [] s acc = Some (acc, s)"
| "strp_match (d # ds) s acc =
     first_some (\<lambda>(v, rest). strp_match ds rest (acc @ [(d, v)])) (cands d s)"

definition leap :: "nat \<Rightarrow> bool" where
  "leap y \<longleftrightarrow> y mod 4 = 0 \<and> (y mod 100 \<noteq> 0 \<or> y mod 400 = 0)"

definition days_in_month :: "nat \<Rightarrow> nat \<Rightarrow> nat" where
  "days_in_month y m =
     (if m = 2 then (if leap y then 29 else 28)
      else if m = 4 \<or> m = 6 \<or> m = 9 \<or> m = 11 then 30 else 31)"

definition field :: "(directive \<times> nat) list \<Rightarrow> directive list \<Rightarrow> nat \<Rightarrow> nat" where
  "field fs ds dflt = (case first_some (map_of fs) ds of Some v \<Rightarrow> v | None \<Rightarrow> dflt)"

definition strptime :: "pystr \<Rightarrow> string \<Rightarrow> error + datetime" where
  "strptime data fmt =
     (case strp_match (parse_format (u fmt)) data [] of
        None \<Rightarrow> Inl ValueError
      | Some (fs, rest) \<Rightarrow>
          if rest \<noteq> [] then Inl ValueError
          else
            (let y = field fs [D_Y] 1900; m = field fs [D_b, D_B, D_m] 1; d = field fs [D_d] 1
             in if y = 0 \<or> days_in_month y m < d then Inl ValueError
                else Inr \<lparr>year = y, month = m, day = d,
                          hour = field fs [D_H] 0, minute = field fs [D_M] 0\<rparr>))"

section \<open>The Article class\<close>

record article =
  title :: pystr
  subtitle :: "pystr option"
  date :: datetime
  authors :: "pystr list"
  sources :: "pystr list"
  content :: pystr
  content_no_tags :: pystr
  content_no_punc :: pystr
  word_count :: nat
  url :: pystr
  type :: pystr
  tags :: "pystr list"
  translated :: bool

subsection \<open>The tag-stripping helpers\<close>

definition strip_all_tags :: "pystr \<Rightarrow> pystr" where
  "strip_all_tags html =
     (let html_bs = BeautifulSoup html;
          html_list = concat (map texts html_bs);
          html_list = map strip (filter (\<lambda>chunk. strip chunk \<noteq> []) html_list)
      in join (u '' '') html_list)"

text \<open>\<^verbatim>\<open>item.extract()\<close> for every found tag: the tags of these names go, with what is in them.\<close>

fun extract_named :: "pystr list \<Rightarrow> node \<Rightarrow> node list" where
  "extract_named names (Tag n as cs) =
     (if n \<in> set names then [] else [Tag n as (concat (map (extract_named names) cs))])"
| "extract_named names nd = [nd]"

definition strip_extra_tags :: "pystr \<Rightarrow> pystr" where
  "strip_extra_tags html =
     (let html_bs = BeautifulSoup html;
          html_bs = concat (map (extract_named (map u [''script'', ''style'', ''br'', ''div''])) html_bs)
      in str_soup html_bs)"

text \<open>\<^verbatim>\<open>match.replaceWithChildren()\<close> for every tag of one name.\<close>

fun unwrap :: "pystr \<Rightarrow> node \<Rightarrow> node list" where
  "unwrap name (Tag n as cs) =
     (let cs' = concat (map (unwrap name) cs) in if n = name then cs' else [Tag n as cs'])"
| "unwrap name nd = [nd]"

definition strip_again :: "pystr \<Rightarrow> pystr" where
  "strip_again html =
     (let invalid_tags = map u [''script'', ''br'', ''div''];
          soup = BeautifulSoup html;
          soup = foldl (\<lambda>sp tag. concat (map (unwrap tag) sp)) soup invalid_tags
      in str_soup soup)"

text \<open>\<^verbatim>\<open>line != '\n'\<close>: a string or comment equal to a newline is dropped, a tag never.\<close>

fun is_newline :: "node \<Rightarrow> bool" where
  "is_newline (NavigableString s) \<longleftrightarrow> s = [10]"
| "is_newline (Comment s) \<longleftrightarrow> s = [10]"
| "is_newline (Tag n as cs) \<longleftrightarrow> False"

text \<open>\<^verbatim>\<open>' '.join([str(tag).strip() for tag in x.contents])\<close>.\<close>

definition joined_contents :: "node \<Rightarrow> pystr" where
  "joined_contents nd = join (u '' '') (map (\<lambda>tag. strip (py_str tag)) (contents nd))"

text \<open>\<^verbatim>\<open>soup.find('meta', {'property':'og:url'})['content']\<close>.\<close>

definition og_url :: "soup \<Rightarrow> error + pystr" where
  "og_url soup =
     (case find_tag ''meta'' [(''property'', ''og:url'')] soup of
        None \<Rightarrow> Inl TypeError
      | Some m \<Rightarrow> get_attr m ''content'')"

subsection \<open>Egypt Independent\<close>

definition extract_fields_egind :: "soup \<Rightarrow> error + article" where
  "extract_fields_egind soup =
     bind_e (idx0 (select ''.pane-node-title div'' soup)) (\<lambda>title_raw0.
     let title_clean = joined_contents title_raw0 in
     bind_e (map_e (\<lambda>source. bind_e (string_e source) (\<lambda>s. Inr (strip s)))
               (select ''.field-field-source .field-items a'' soup)) (\<lambda>source_clean.
     bind_e (map_e (\<lambda>author. bind_e (string_e author) (\<lambda>s. Inr (strip s)))
               (select ''.field-field-author .field-items a'' soup)) (\<lambda>author_clean.
     bind_e (idx0 (select ''.field-field-published-date span'' soup)) (\<lambda>date_raw0.
     bind_e (string_e date_raw0) (\<lambda>date_string.
     bind_e (strptime (strip date_string) ''%a, %d/%m/%Y - %H:%M'') (\<lambda>date_object.
     bind_e (map_e (\<lambda>tag. bind_e (string_e tag) (\<lambda>s. Inr (lower (strip s))))
               (select ''.view-free-tags .field-content a'' soup)) (\<lambda>tags'.
     bind_e (idx0 (select ''.pane-node-body div'' soup)) (\<lambda>content_raw0.
     let content_clean = map py_str (filter (\<lambda>line. \<not> is_newline line) (contents content_raw0));
         content_no_tags' = join [10] (map strip_all_tags content_clean);
         content_no_punc' = sub_class (\<lambda>c. c \<in> set punc) (lower content_no_tags')
     in
     bind_e (og_url soup) (\<lambda>url'.
     bind_e (idx_last content_clean) (\<lambda>last_chunk.
     Inr \<lparr>title = title_clean, subtitle = None, date = date_object,
          authors = author_clean, sources = source_clean,
          content = join [10] content_clean,
          content_no_tags = content_no_tags',
          content_no_punc = content_no_punc',
          word_count = length (split content_no_punc'),
          url = url',
          type = (if contains (u ''/opinion/'') url' then u ''Opinion'' else u ''News''),
          tags = tags',
          translated = contains (u ''translat'') last_chunk\<rparr>))))))))))"

subsection \<open>al-Ahram\<close>

fun remove_comments :: "node \<Rightarrow> node list" where
  "remove_comments (Comment s) = []"
| "remove_comments (NavigableString s) = [NavigableString s]"
| "remove_comments (Tag n as cs) = [Tag n as (concat (map remove_comments cs))]"

text \<open>\<^verbatim>\<open>str.translate\<close> with the script's table: newlines and tabs go, a no-break space becomes a space.\<close>

definition translate :: "pystr \<Rightarrow> pystr" where
  "translate s = map (\<lambda>c. if c = 160 then 32 else c) (filter (\<lambda>c. c \<noteq> 10 \<and> c \<noteq> 9) s)"

text \<open>
  \<^verbatim>\<open>[list(group) for k, group in groupby(xs, key) if not k]\<close>: the maximal runs of
  elements whose key is false.
\<close>

fun groups_acc :: "('a \<Rightarrow> bool) \<Rightarrow> 'a list \<Rightarrow> 'a list \<Rightarrow> 'a list list" where
  "groups_acc k cur [] = (if cur = [] then [] else [cur])"
| "groups_acc k cur (x # xs) =
     (if k x then (if cur = [] then groups_acc k [] xs else cur # groups_acc k [] xs)
      else groups_acc k (cur @ [x]) xs)"

text \<open>\<^verbatim>\<open>tag.extract()\<close> for every tag a one-compound selector found.\<close>

fun extract_sel :: "simple \<Rightarrow> node \<Rightarrow> node list" where
  "extract_sel s (Tag n as cs) =
     (if matches s (Tag n as cs) then [] else [Tag n as (concat (map (extract_sel s) cs))])"
| "extract_sel s nd = [nd]"

definition extract_below :: "simple \<Rightarrow> node \<Rightarrow> node" where
  "extract_below s nd =
     (case nd of Tag n as cs \<Rightarrow> Tag n as (concat (map (extract_sel s) cs)) | _ \<Rightarrow> nd)"

definition extract_fields_ahram :: "soup \<Rightarrow> error + article" where
  "extract_fields_ahram soup0 =
     (let soup = concat (map remove_comments soup0) in
     bind_e (idx0 (select ''#ContentPlaceHolder1_hd'' soup)) (\<lambda>title_raw0.
     let title' = strip_all_tags (joined_contents title_raw0) in
     bind_e (idx0 (select ''#ContentPlaceHolder1_bref'' soup)) (\<lambda>subtitle_raw0.
     let subtitle_clean = strip_all_tags (joined_contents subtitle_raw0) in
     bind_e (idx0 (select ''#ContentPlaceHolder1_source'' soup)) (\<lambda>blob0.
     let source_and_date = joined_contents blob0;
         source_and_date = sub_class (\<lambda>c. c = 40 \<or> c = 41) source_and_date;
         source_and_date_split = re_split [u '','', u ''and'', u ''  ''] source_and_date;
         date_clean = strip (last source_and_date_split);
         source_and_date_split = butlast source_and_date_split
     in
     bind_e (strptime date_clean ''%A %d %b %Y'') (\<lambda>date_object.
     bind_e (case find_tag ''title'' [] soup of
               None \<Rightarrow> Inl AttributeError
             | Some t \<Rightarrow> (case string_of t of None \<Rightarrow> Inl TypeError | Some s \<Rightarrow> Inr s))
       (\<lambda>title_string.
     let type' = (if contains (u ''Opinion -'') title_string then u ''Opinion'' else u ''News'');
         source_clean = map strip (filter (\<lambda>source. source \<noteq> []) source_and_date_split)
     in
     bind_e (idx0 (select ''#ContentPlaceHolder1_divContent'' soup)) (\<lambda>content_blob_raw0.
     let content_blob = map (\<lambda>line. translate (py_str line))
                          (filter (\<lambda>line. \<not> is_newline line) (contents content_blob_raw0));
         content_blob_split = groups_acc (\<lambda>x. x = u ''Short link: '') [] content_blob
     in
     bind_e (idx0 content_blob_split) (\<lambda>content_raw.
     let content_soup = BeautifulSoup (join [10] content_raw);
         search_word = parse_compound (u ''.search_word'');
         tags_raw = map (extract_below search_word) (select ''.search_word'' content_soup);
         content_soup = concat (map (extract_sel search_word) content_soup);
         content_raw = map py_str (filter (\<lambda>line. \<not> is_newline line) content_soup);
         content_clean = map strip_extra_tags content_raw;
         content_clean = filter (\<lambda>chunk. chunk \<noteq> []) content_clean;
         content_no_tags' = join [10] (map strip_all_tags content_clean);
         content_no_punc' = sub_class (\<lambda>c. c \<in> set punc) (lower content_no_tags');
         tags' = (case tags_raw of
                    [] \<Rightarrow> []
                  | t # _ \<Rightarrow>
                      (let tags_string = strip_all_tags (py_str t);
                           tags_clean = replace tags_string (u ''Search Keywords: '') [];
                           tags_split = str_split tags_clean (u ''|'')
                       in map (\<lambda>tag. lower (strip tag)) tags_split))
     in
     bind_e (idx1 content_blob_split) (\<lambda>url_group.
     bind_e (case search_value (concat url_group) of
               None \<Rightarrow> Inl AttributeError | Some g \<Rightarrow> Inr g) (\<lambda>shortlink.
     let url' = (if contains (u ''http'') shortlink then shortlink
                 else u ''http://english.ahram.org.eg/News/'' @ filter is_digit shortlink @ u ''.aspx'')
     in
     Inr \<lparr>title = title',
          subtitle = (if subtitle_clean \<noteq> [] then Some subtitle_clean else None),
          date = date_object,
          authors = (if type' = u ''Opinion'' then source_clean else []),
          sources = (if type' = u ''Opinion'' then [] else source_clean),
          content = join [10] content_clean,
          content_no_tags = content_no_tags',
          content_no_punc = content_no_punc',
          word_count = length (split content_no_punc'),
          url = url',
          type = type',
          tags = tags',
          translated = False\<rparr>))))))))))"

subsection \<open>Daily News Egypt\<close>

text \<open>
  The file is read, an unbalanced \<^verbatim>\<open><h1 class="posttitle"\<close> is rewritten to \<^verbatim>\<open><h2\<close>, and
  the text is parsed; \<open>soup\<close> is the tree after that. After the line
  \<^verbatim>\<open>content_clean = content_clean[0]\<close> the name \<^verbatim>\<open>content_clean\<close> holds one string, so
  the later \<^verbatim>\<open>for chunk in content_clean\<close> runs over its characters and
  \<^verbatim>\<open>content_clean[0]\<close> is its first character. The list \<^verbatim>\<open>source_clean\<close> holds
  node objects; the record keeps their \<^verbatim>\<open>str\<close>.
\<close>

definition extract_fields_dne :: "soup \<Rightarrow> error + article" where
  "extract_fields_dne soup =
     bind_e (idx0 (select ''h2.posttitle'' soup)) (\<lambda>title_raw0.
     let title' = strip_all_tags (joined_contents title_raw0) in
     bind_e (idx0 (select ''#postExcerpt'' soup)) (\<lambda>subtitle_raw0.
     let subtitle_clean = strip_all_tags (joined_contents subtitle_raw0) in
     bind_e (idx0 (select ''.metaStuff time'' soup)) (\<lambda>date_raw0.
     bind_e (string_e date_raw0) (\<lambda>date_string.
     bind_e (strptime (strip date_string) ''%B %d, %Y'') (\<lambda>date_object.
     bind_e (idx0 (select ''#crumbs'' soup)) (\<lambda>opinion_raw0.
     let opinion_clean = strip_all_tags (joined_contents opinion_raw0);
         type' = (if contains (u ''Opinion'') opinion_clean then u ''Opinion'' else u ''News'')
     in
     bind_e (idx0 (select ''div.entry'' soup)) (\<lambda>content_raw0.
     let content_clean = map (\<lambda>chunk. strip (strip_again (py_str chunk))) (contents content_raw0);
         content_clean = filter (\<lambda>line. line \<noteq> []) content_clean;
         content_clean = join [10] content_clean;
         content_clean = hd (str_split content_clean (u ''<p>Related posts:''));
         content_clean_cdata = str_split content_clean (u ''//]]&gt;'');
         content' = (if length content_clean_cdata > 1 then content_clean_cdata ! 1
                     else content_clean);
         content_no_tags' = join [10] (map (\<lambda>chunk. strip_all_tags [chunk]) content_clean);
         content_no_punc' = sub_class (\<lambda>c. c \<in> set punc) (lower content_no_tags')
     in
     bind_e (case find_tag ''span'' [(''itemprop'', ''author'')] soup of
               None \<Rightarrow> Inl AttributeError
             | Some sp \<Rightarrow> Inr (find (has_attrs (u ''a'') []) (descendants sp)))
       (\<lambda>source_byline_raw.
     let source_bio_raw = select ''#authorBio .author-data h4 a'' soup in
     bind_e (case source_byline_raw of
               Some a \<Rightarrow> bind_e (idx0 (contents a)) (\<lambda>c. Inr [c])
             | None \<Rightarrow> (case source_bio_raw of b # _ \<Rightarrow> Inr (contents b) | [] \<Rightarrow> Inr []))
       (\<lambda>source_clean.
     bind_e (idx0 content_clean) (\<lambda>first_char.
     let firstline = strip_all_tags [first_char];
         additional_sources =
           (if startswith firstline (u ''By'' @ [160]) \<or> startswith firstline (u ''By '')
            then
              (let source_article_byline = strip (replace firstline (u ''By'') []);
                   source_article_byline = re_split [u '','', u ''and''] source_article_byline
               in map strip (filter (\<lambda>source. length (split source) < 6) source_article_byline))
            else []);
         wire_sources = re_findall (map u [''Reuters'', ''AP'', ''PA'', ''ANP'', ''AFP'', ''DPA'',
                                           ''ANSA'', ''MENA'']) firstline;
         combined_sources = map py_str source_clean @ additional_sources @ wire_sources;
         final_sources = (if length combined_sources > 0 then combined_sources
                          else [u ''Daily News Egypt''])
     in
     bind_e (og_url soup) (\<lambda>url'.
     let tags_raw = select ''ul#metaStuff li'' soup;
         tags_raw = concat (map (\<lambda>tag. strip (py_str tag))
                      (filter (\<lambda>tag. contains (u ''Tagged With:'') (py_str tag)) tags_raw));
         tags_raw = replace (strip_all_tags tags_raw) (u ''Tagged With:'') [];
         tags' = map (\<lambda>tag. lower (strip tag)) (str_split tags_raw (u '',''))
     in
     Inr \<lparr>title = title',
          subtitle = (if subtitle_clean \<noteq> [] then Some subtitle_clean else None),
          date = date_object,
          authors = (if type' = u ''Opinion'' then final_sources else []),
          sources = (if type' = u ''Opinion'' then [] else final_sources),
          content = content',
          content_no_tags = content_no_tags',
          content_no_punc = content_no_punc',
          word_count = length (split content_no_punc'),
          url = url',
          type = type',
          tags = tags',
          translated = False\<rparr>)))))))))))"

text \<open>\<^verbatim>\<open>Article.__init__\<close>: the global \<^verbatim>\<open>publication\<close> picks the extractor.\<close>

definition Article :: "string \<Rightarrow> soup \<Rightarrow> error + article" where
  "Article publication html_file =
     (if publication = ''egind'' then extract_fields_egind html_file
      else if publication = ''ahram'' then extract_fields_ahram html_file
      else if publication = ''dne'' then extract_fields_dne html_file
      else Inl (Exception (u ''You must specify 'egind', 'ahram', or 'dne' as the publication.'')))"

section \<open>The database\<close>

text \<open>
  Modelled from the spec: \<^verbatim>\<open>schema.sql\<close>, which the script names and does not contain.
  The spec gives five kinds of table: articles with a generated identity and a unique
  URL; authors, sources and tags, each a generated identity and a unique name; and three
  junction tables of (article, dimension) pairs, a pair at most once. A table is the
  list of its rows in insertion order; a generated identity is one more than the
  largest in the table. \<^verbatim>\<open>INSERT OR IGNORE\<close> skips a row whose unique key is present.
\<close>

record article_row =
  article_title :: pystr
  article_subtitle :: "pystr option"
  article_date :: datetime
  article_url :: pystr
  article_type :: pystr
  article_content :: pystr
  article_content_no_tags :: pystr
  article_content_no_punc :: pystr
  article_word_count :: nat
  article_translated :: bool

record db =
  t_articles :: "(nat \<times> article_row) list"
  t_authors :: "(nat \<times> pystr) list"
  t_sources :: "(nat \<times> pystr) list"
  t_tags :: "(nat \<times> pystr) list"
  articles_sources :: "(nat \<times> nat) list"
  articles_authors :: "(nat \<times> nat) list"
  articles_tags :: "(nat \<times> nat) list"

definition next_id :: "(nat \<times> 'a) list \<Rightarrow> nat" where
  "next_id tbl = Suc (fold max (map fst tbl) 0)"

definition insert_article :: "article_row \<Rightarrow> (nat \<times> article_row) list \<Rightarrow> (nat \<times> article_row) list" where
  "insert_article r tbl =
     (if article_url r \<in> set (map (\<lambda>x. article_url (snd x)) tbl) then tbl
      else tbl @ [(next_id tbl, r)])"

definition insert_name :: "pystr \<Rightarrow> (nat \<times> pystr) list \<Rightarrow> (nat \<times> pystr) list" where
  "insert_name n tbl = (if n \<in> set (map snd tbl) then tbl else tbl @ [(next_id tbl, n)])"

definition insert_pair :: "nat \<times> nat \<Rightarrow> (nat \<times> nat) list \<Rightarrow> (nat \<times> nat) list" where
  "insert_pair p tbl = (if p \<in> set tbl then tbl else tbl @ [p])"

text \<open>\<^verbatim>\<open>SELECT id FROM t WHERE name IN (...)\<close>, the rows in table order.\<close>

definition select_ids :: "pystr list \<Rightarrow> (nat \<times> pystr) list \<Rightarrow> nat list" where
  "select_ids names tbl = map fst (filter (\<lambda>r. snd r \<in> set names) tbl)"

definition row_of :: "article \<Rightarrow> article_row" where
  "row_of self =
     \<lparr>article_title = title self, article_subtitle = subtitle self, article_date = date self,
      article_url = url self, article_type = type self, article_content = content self,
      article_content_no_tags = content_no_tags self,
      article_content_no_punc = content_no_punc self,
      article_word_count = word_count self, article_translated = translated self\<rparr>"

definition write_to_db :: "article \<Rightarrow> db \<Rightarrow> error + db" where
  "write_to_db self c =
     (let arts = insert_article (row_of self) (t_articles c);
          article_in_db = map fst (filter (\<lambda>r. article_url (snd r) = url self) arts)
      in
      bind_e (idx0 article_in_db) (\<lambda>article_id.
      let auths = fold insert_name (authors self) (t_authors c);
          author_ids = select_ids (authors self) auths;
          srcs = fold insert_name (sources self) (t_sources c);
          source_ids = select_ids (sources self) srcs;
          tgs = fold insert_name (tags self) (t_tags c);
          tag_ids = select_ids (tags self) tgs
      in
      Inr \<lparr>t_articles = arts, t_authors = auths, t_sources = srcs, t_tags = tgs,
           articles_sources =
             fold insert_pair (map (\<lambda>source. (article_id, source)) source_ids) (articles_sources c),
           articles_authors =
             fold insert_pair (map (\<lambda>author. (article_id, author)) author_ids) (articles_authors c),
           articles_tags =
             fold insert_pair (map (\<lambda>tag. (article_id, tag)) tag_ids) (articles_tags c)\<rparr>))"

section \<open>The main loop\<close>

text \<open>
  The run holds the database and the folder \<^verbatim>\<open>broken_files\<close>. A file is its name and
  the tree its text parses to. The loop stops at the first exception other than
  IndexError; it gives the state reached and that exception, if any.
\<close>

record run_state =
  store :: db
  broken :: "(string \<times> soup) list"

fun main_loop :: "string \<Rightarrow> (string \<times> soup) list \<Rightarrow> run_state \<Rightarrow> run_state \<times> error option" where
  "main_loop publication [] st = (st, None)"
| "main_loop publication ((name, html_file) # rest) st =
     (case bind_e (Article publication html_file) (\<lambda>article. write_to_db article (store st)) of
        Inr c \<Rightarrow> main_loop publication rest (st\<lparr>store := c\<rparr>)
      | Inl e \<Rightarrow>
          if e = IndexError
          then main_loop publication rest (st\<lparr>broken := broken st @ [(name, html_file)]\<rparr>)
          else (st, Some e))"

definition empty_db :: db where
  "empty_db = \<lparr>t_articles = [], t_authors = [], t_sources = [], t_tags = [],
               articles_sources = [], articles_authors = [], articles_tags = []\<rparr>"

section \<open>What the properties speak about\<close>

text \<open>
  The number of whitespace-delimited tokens of a string, counted where they start: at a
  non-blank character that is the first of the string or follows a blank one.
\<close>

definition token_count :: "pystr \<Rightarrow> nat" where
  "token_count s =
     length (filter (\<lambda>i. \<not> isspace (s ! i) \<and> (i = 0 \<or> isspace (s ! (i - 1))))
               [0..<length s])"

text \<open>
  The tag-free content as the data model words it: every content block with its markup
  removed, the blocks joined by newlines.
\<close>

definition de_tagged :: "pystr list \<Rightarrow> pystr" where
  "de_tagged blocks = join [10] (map strip_all_tags blocks)"

text \<open>
  The text an extractor hands to \<^verbatim>\<open>strptime\<close>, when it gets that far, and the format
  it parses it with.
\<close>

definition date_format :: "string \<Rightarrow> string" where
  "date_format publication =
     (if publication = ''egind'' then ''%a, %d/%m/%Y - %H:%M''
      else if publication = ''ahram'' then ''%A %d %b %Y''
      else ''%B %d, %Y'')"

definition date_text :: "string \<Rightarrow> soup \<Rightarrow> error + pystr" where
  "date_text publication soup =
     (if publication = ''egind'' then
        bind_e (idx0 (select ''.pane-node-title div'' soup)) (\<lambda>title_raw0.
        bind_e (map_e (\<lambda>source. bind_e (string_e source) (\<lambda>s. Inr (strip s)))
                  (select ''.field-field-source .field-items a'' soup)) (\<lambda>source_clean.
        bind_e (map_e (\<lambda>author. bind_e (string_e author) (\<lambda>s. Inr (strip s)))
                  (select ''.field-field-author .field-items a'' soup)) (\<lambda>author_clean.
        bind_e (idx0 (select ''.field-field-published-date span'' soup)) (\<lambda>date_raw0.
        bind_e (string_e date_raw0) (\<lambda>date_string. Inr (strip date_string))))))
      else if publication = ''ahram'' then
        bind_e (idx0 (select ''#ContentPlaceHolder1_hd'' (concat (map remove_comments soup))))
          (\<lambda>title_raw0.
        bind_e (idx0 (select ''#ContentPlaceHolder1_bref'' (concat (map remove_comments soup))))
          (\<lambda>subtitle_raw0.
        bind_e (idx0 (select ''#ContentPlaceHolder1_source'' (concat (map remove_comments soup))))
          (\<lambda>blob0.
        Inr (strip (last (re_split [u '','', u ''and'', u ''  '']
                            (sub_class (\<lambda>c. c = 40 \<or> c = 41) (joined_contents blob0))))))))
      else
        bind_e (idx0 (select ''h2.posttitle'' soup)) (\<lambda>title_raw0.
        bind_e (idx0 (select ''#postExcerpt'' soup)) (\<lambda>subtitle_raw0.
        bind_e (idx0 (select ''.metaStuff time'' soup)) (\<lambda>date_raw0.
        bind_e (string_e date_raw0) (\<lambda>date_string. Inr (strip date_string))))))"

subsection \<open>Sample pages\<close>

text \<open>An Egypt Independent page with a source field, an author field and the given date line.\<close>

definition egind_page :: "string \<Rightarrow> soup" where
  "egind_page date_line =
     [Tag (u ''meta'') [(u ''property'', u ''og:url''),
                        (u ''content'', u ''http://www.egyptindependent.com/news/sample'')] [],
      Tag (u ''div'') [(u ''class'', u ''pane-node-title'')]
        [Tag (u ''div'') [] [NavigableString (u ''A title'')]],
      Tag (u ''div'') [(u ''class'', u ''field-field-source'')]
        [Tag (u ''div'') [(u ''class'', u ''field-items'')]
           [Tag (u ''a'') [] [NavigableString (u ''Reuters'')]]],
      Tag (u ''div'') [(u ''class'', u ''field-field-author'')]
        [Tag (u ''div'') [(u ''class'', u ''field-items'')]
           [Tag (u ''a'') [] [NavigableString (u ''Jane Doe'')]]],
      Tag (u ''div'') [(u ''class'', u ''field-field-published-date'')]
        [Tag (u ''span'') [] [NavigableString (u date_line)]],
      Tag (u ''div'') [(u ''class'', u ''pane-node-body'')]
        [Tag (u ''div'') [] [Tag (u ''p'') [] [NavigableString (u ''Hello, world'')]]]]"

text \<open>An al-Ahram news page whose source line is the given sources, a comma and the given date.\<close>

definition ahram_page :: "string \<Rightarrow> soup" where
  "ahram_page date_line =
     [Tag (u ''title'') [] [NavigableString (u ''Egypt - Politics - Ahram Online'')],
      Tag (u ''div'') [(u ''id'', u ''ContentPlaceHolder1_hd'')] [NavigableString (u ''A title'')],
      Tag (u ''div'') [(u ''id'', u ''ContentPlaceHolder1_bref'')] [NavigableString (u ''A brief'')],
      Tag (u ''div'') [(u ''id'', u ''ContentPlaceHolder1_source'')]
        [NavigableString (u ''Reuters and Ahram Online (Jadaliyya), '' @ u date_line)],
      Tag (u ''div'') [(u ''id'', u ''ContentPlaceHolder1_divContent'')]
        [Tag (u ''p'') [] [NavigableString (u ''Hello'')],
         NavigableString (u ''Short link: ''),
         Tag (u ''input'') [(u ''class'', u ''text_inner_ShortLink''),
                            (u ''value'', u ''http://english.ahram.org.eg/News/77777.aspx'')] []]]"

text \<open>
  A Daily News Egypt opinion page whose only content paragraph is the byline of the
  scenario; \<open>byline\<close> is what stands in the header where the author span belongs.
\<close>

definition dne_page :: "node list \<Rightarrow> soup" where
  "dne_page byline =
     [Tag (u ''meta'') [(u ''property'', u ''og:url''),
                        (u ''content'', u ''http://www.dailynewsegypt.com/sample/'')] [],
      Tag (u ''div'') [(u ''id'', u ''crumbs'')] [NavigableString (u ''Home Opinion'')],
      Tag (u ''h2'') [(u ''class'', u ''posttitle'')] [NavigableString (u ''A title'')],
      Tag (u ''div'') [(u ''id'', u ''postExcerpt'')] [NavigableString (u ''A subtitle'')],
      Tag (u ''p'') [(u ''class'', u ''metaStuff'')]
        (byline @ [Tag (u ''time'') [] [NavigableString (u ''August 5, 2013'')]]),
      Tag (u ''div'') [(u ''class'', u ''entry'')]
        [Tag (u ''p'') []
           [NavigableString (u ''By Jane Doe, John Smith and wire reports'')]]]"

definition author_span :: node where
  "author_span = Tag (u ''span'') [(u ''itemprop'', u ''author'')] []"

text \<open>What \<open>extract_fields_dne\<close> makes of \<open>dne_page [author_span]\<close>.\<close>

definition dne_article :: article where
  "dne_article =
     \<lparr>title = u ''A title'', subtitle = Some (u ''A subtitle''),
      date = \<lparr>year = 2013, month = 8, day = 5, hour = 0, minute = 0\<rparr>,
      authors = [u ''Daily News Egypt''], sources = [],
      content = u ''<p>By Jane Doe, John Smith and wire reports</p>'',
      content_no_tags =
        join [10] (map (\<lambda>c. if c = 32 then [] else [c])
                     (u ''<p>By Jane Doe, John Smith and wire reports</p>'')),
      content_no_punc =
        join [10] (map (\<lambda>c. if c = 32 then [] else if c \<in> set punc then [32] else [lower_char c])
                     (u ''<p>By Jane Doe, John Smith and wire reports</p>'')),
      word_count = 34,
      url = u ''http://www.dailynewsegypt.com/sample/'',
      type = u ''Opinion'', tags = [[]], translated = False\<rparr>"

definition start :: run_state where
  "start = \<lparr>store = empty_db, broken = []\<rparr>"

text \<open>Every unique key of the store occurs once.\<close>

definition db_unique :: "db \<Rightarrow> bool" where
  "db_unique c \<longleftrightarrow>
     distinct (map (\<lambda>r. article_url (snd r)) (t_articles c)) \<and>
     distinct (map snd (t_authors c)) \<and> distinct (map snd (t_sources c)) \<and>
     distinct (map snd (t_tags c)) \<and>
     distinct (articles_sources c) \<and> distinct (articles_authors c) \<and>
     distinct (articles_tags c)"

text \<open>The empty store after \<open>dne_article\<close> has been written to it.\<close>

definition dne_db :: db where
  "dne_db =
     \<lparr>t_articles = [(1, row_of dne_article)], t_authors = [(1, u ''Daily News Egypt'')],
      t_sources = [], t_tags = [(1, [])],
      articles_sources = [], articles_authors = [(1, 1)], articles_tags = [(1, 1)]\<rparr>"

text \<open>
  The names a page credits, read apart from the extractors. For al-Ahram: the source
  line with its parentheses blanked, split on commas, \<^verbatim>\<open>and\<close> and double blanks; the
  last piece is the date, the non-empty pieces before it are the names.
\<close>

definition ahram_names :: "soup \<Rightarrow> error + pystr list" where
  "ahram_names soup =
     bind_e (idx0 (select ''#ContentPlaceHolder1_source'' (concat (map remove_comments soup))))
       (\<lambda>blob0.
          Inr (map strip (filter (\<lambda>source. source \<noteq> [])
                 (butlast (re_split [u '','', u ''and'', u ''  '']
                             (sub_class (\<lambda>c. c = 40 \<or> c = 41) (joined_contents blob0)))))))"

text \<open>
  For Daily News Egypt, the names of the page header: the first child of the link in the
  author span, or else the children of the author-bio heading link.
\<close>

definition dne_header_names :: "soup \<Rightarrow> error + pystr list" where
  "dne_header_names soup =
     bind_e (case find_tag ''span'' [(''itemprop'', ''author'')] soup of
               None \<Rightarrow> Inl AttributeError
             | Some sp \<Rightarrow> Inr (find (has_attrs (u ''a'') []) (descendants sp)))
       (\<lambda>byline.
     bind_e (case byline of
               Some a \<Rightarrow> bind_e (idx0 (contents a)) (\<lambda>c. Inr [c])
             | None \<Rightarrow> (case select ''#authorBio .author-data h4 a'' soup of
                          b # _ \<Rightarrow> Inr (contents b) | [] \<Rightarrow> Inr []))
       (\<lambda>found. Inr (map py_str found)))"

text \<open>For Egypt Independent, the stripped texts of the links a selector finds.\<close>

definition link_texts :: "string \<Rightarrow> soup \<Rightarrow> error + pystr list" where
  "link_texts css soup =
     map_e (\<lambda>link. bind_e (string_e link) (\<lambda>s. Inr (strip s))) (select css soup)"

text \<open>The author span of a page whose header names Jane Roe.\<close>

definition roe_span :: node where
  "roe_span =
     Tag (u ''span'') [(u ''itemprop'', u ''author'')]
       [Tag (u ''a'') [(u ''href'', u ''/author/roe/'')] [NavigableString (u ''Jane Roe'')]]"

section \<open>Proofs\<close>

subsection \<open>Exceptions and evaluation\<close>

lemma bind_e_Inr [simp]: "bind_e (Inr x) f = f x"
  by (simp add: bind_e_def)

lemma bind_e_Inl [simp]: "bind_e (Inl e) f = Inl e"
  by (simp add: bind_e_def)

lemma bind_e_weak_cong: "m = m' \<Longrightarrow> bind_e m f = bind_e m' f"
  by simp

lemma bind_e_InrE:
  assumes "bind_e m f = Inr y"
  obtains x where "m = Inr x" and "f x = Inr y"
  using assms by (cases m) simp_all

lemma Let_InrE:
  assumes "(let x = t in f x) = r"
  obtains x where "x = t" and "f x = r"
  using assms by simp

lemmas ev = u_def idx0_def idx1_def idx_last_def isspace_def strip_def split_def
  startswith_def lower_char_def lower_def first_alt_def re_split_def str_split_def re_findall_def
  replace_def sub_class_def punc_def is_digit_def digit_zero_def digit_val_def digit_zeros_def is_alpha_def greedy_to_quote_def
  string_e_def all_nodes_def escape_def void_tags_def attr_value_def attrs_str_def str_soup_def
  unescape_def endswith_def make_tag_def tag_complete_def text_tok_def pop_to_def end_data_def
  BeautifulSoup_def parse_compound_def select_def find_tag_def get_attr_def
  directive_of_def int_of_digits_def class_cands_def one_def rng_def a_weekday_def f_weekday_def
  a_month_def f_month_def leap_def days_in_month_def field_def strptime_def
  strip_all_tags_def strip_extra_tags_def strip_again_def joined_contents_def og_url_def
  translate_def extract_below_def Let_def

subsection \<open>Counting tokens\<close>

lemma upt_0_Suc: "[0..<Suc n] = 0 # map Suc [0..<n]"
  by (simp only: upt_conv_Cons[OF zero_less_Suc] map_Suc_upt)

lemma split_acc_length:
  "length (split_acc cur s) =
     (if cur = [] then 0 else 1) +
     length (filter (\<lambda>i. \<not> isspace (s ! i) \<and> (if i = 0 then cur = [] else isspace (s ! (i - 1))))
               [0..<length s])"
proof (induction s arbitrary: cur)
  case Nil
  then show ?case by simp
next
  case (Cons c cs)
  have shift: "filter (\<lambda>i. \<not> isspace ((c # cs) ! i) \<and>
                    (if i = 0 then b else isspace ((c # cs) ! (i - 1)))) (map Suc [0..<length cs])
             = map Suc (filter (\<lambda>i. \<not> isspace (cs ! i) \<and>
                    (if i = 0 then isspace c else isspace (cs ! (i - 1)))) [0..<length cs])" for b
    by (simp add: filter_map comp_def nth_Cons' cong: if_cong)
  show ?case
    unfolding length_Cons upt_0_Suc
    by (simp add: shift Cons.IH)
qed

lemma length_split: "length (split s) = token_count s"
proof -
  have "(\<lambda>i. \<not> isspace (s ! i) \<and> (if i = 0 then ([]::pystr) = [] else isspace (s ! (i - 1))))
      = (\<lambda>i. \<not> isspace (s ! i) \<and> (i = 0 \<or> isspace (s ! (i - 1))))"
    by auto
  then show ?thesis
    unfolding split_def token_count_def split_acc_length by simp
qed

lemma no_punc_after_sub: "set (sub_class (\<lambda>c. c \<in> set punc) s) \<inter> set punc = {}"
proof -
  have "32 \<notin> set punc" by (simp add: punc_def)
  then show ?thesis by (auto simp: sub_class_def)
qed

subsection \<open>The derived fields\<close>

lemma egind_derived:
  assumes "extract_fields_egind soup = Inr a"
  shows "word_count a = length (split (content_no_punc a)) \<and>
         (\<exists>t. content_no_punc a = sub_class (\<lambda>c. c \<in> set punc) t)"
  using assms unfolding extract_fields_egind_def
  apply (elim bind_e_InrE Let_InrE)
  apply clarify
  apply (simp (no_asm))
  apply blast
  done

lemma ahram_derived:
  assumes "extract_fields_ahram soup = Inr a"
  shows "word_count a = length (split (content_no_punc a)) \<and>
         (\<exists>t. content_no_punc a = sub_class (\<lambda>c. c \<in> set punc) t)"
  using assms unfolding extract_fields_ahram_def
  apply (elim bind_e_InrE Let_InrE)
  apply clarify
  apply (simp (no_asm))
  apply blast
  done

lemma dne_derived:
  assumes "extract_fields_dne soup = Inr a"
  shows "word_count a = length (split (content_no_punc a)) \<and>
         (\<exists>t. content_no_punc a = sub_class (\<lambda>c. c \<in> set punc) t)"
  using assms unfolding extract_fields_dne_def
  apply (elim bind_e_InrE Let_InrE)
  apply clarify
  apply (simp (no_asm))
  apply blast
  done

lemma Article_derived:
  assumes "Article publication html_file = Inr a"
  shows "word_count a = length (split (content_no_punc a)) \<and>
         (\<exists>t. content_no_punc a = sub_class (\<lambda>c. c \<in> set punc) t)"
  using assms egind_derived ahram_derived dne_derived
  by (simp add: Article_def split: if_splits)

lemma strip_all_tags_char: "strip_all_tags [c] = (if isspace c then [] else [c])"
proof -
  have r: "replace [d] old new = [d]" if "1 < length old" for old new d
    using that by (auto simp: replace_def startswith_def)
  have un: "unescape [d] = [d]" for d
    by (simp add: unescape_def r u_def)
  have bs: "BeautifulSoup [c] = [NavigableString (end_data [([], [], [])] [c])]"
    by (simp add: BeautifulSoup_def text_tok_def un)
  have sa: "strip_all_tags [c] =
              join (u '' '') (map strip (filter (\<lambda>chunk. strip chunk \<noteq> [])
                                            [end_data [([], [], [])] [c]]))"
    by (simp add: strip_all_tags_def bs Let_def)
  have sp: "isspace 10" "isspace 32" "isspace 9" "isspace 12" "isspace 13"
    by (simp_all add: isspace_def)
  have st: "strip [d] = (if isspace d then [] else [d])" for d
    by (simp add: strip_def)
  show ?thesis
  proof (cases "c \<in> {10, 32, 9, 12, 13}")
    case True
    then have "isspace c" using sp by auto
    moreover from True have "end_data [([], [], [])] [c] = [10] \<or> end_data [([], [], [])] [c] = [32]"
      by (auto simp: end_data_def u_def)
    ultimately show ?thesis
      using sp by (auto simp: sa st)
  next
    case False
    then have "end_data [([], [], [])] [c] = [c]"
      by (auto simp: end_data_def u_def)
    then show ?thesis
      by (simp add: sa st)
  qed
qed

lemma dne_eval: "extract_fields_dne (dne_page [author_span]) = Inr dne_article"
  unfolding extract_fields_dne_def dne_page_def author_span_def dne_article_def
  by (simp add: ev cong: bind_e_weak_cong let_weak_cong)

text \<open>
  C7. For every article an extractor returns, of any of the three publications,
  \<open>word_count\<close> is the number of whitespace-delimited tokens of \<open>content_no_punc\<close>,
  and \<open>content_no_punc\<close> holds no character of the punctuation set; the hyphen is
  not in that set.
\<close>

theorem word_count_and_punctuation:
  assumes "Article publication html_file = Inr a"
  shows "word_count a = token_count (content_no_punc a) \<and>
         set (content_no_punc a) \<inter> set punc = {} \<and> 45 \<notin> set punc"
proof -
  from Article_derived[OF assms] obtain t where
    wc: "word_count a = length (split (content_no_punc a))" and
    np: "content_no_punc a = sub_class (\<lambda>c. c \<in> set punc) t"
    by blast
  have "45 \<notin> set punc" by (simp add: punc_def)
  with wc np show ?thesis
    by (simp add: length_split no_punc_after_sub)
qed

theorem word_count_and_punctuation_witness:
  "Article ''dne'' (dne_page [author_span]) = Inr dne_article \<and>
   word_count dne_article = token_count (content_no_punc dne_article) \<and>
   set (content_no_punc dne_article) \<inter> set punc = {}"
  using word_count_and_punctuation[of "''dne''" "dne_page [author_span]" dne_article] dne_eval
  by (simp add: Article_def)


subsection \<open>Authors and sources\<close>

lemma opinion_news: "u ''Opinion'' \<noteq> u ''News''" "u ''News'' \<noteq> u ''Opinion''"
  by (simp_all add: u_def)

lemma ahram_fields:
  assumes "extract_fields_ahram soup = Inr a"
  shows "\<exists>blob0 parts.
           idx0 (select ''#ContentPlaceHolder1_source'' (concat (map remove_comments soup))) = Inr blob0 \<and>
           parts = re_split [u '','', u ''and'', u ''  '']
                     (sub_class (\<lambda>c. c = 40 \<or> c = 41) (joined_contents blob0)) \<and>
           strptime (strip (last parts)) ''%A %d %b %Y'' = Inr (date a) \<and>
           (type a = u ''Opinion'' \<or> type a = u ''News'') \<and>
           authors a = (if type a = u ''Opinion''
                        then map strip (filter (\<lambda>source. source \<noteq> []) (butlast parts)) else []) \<and>
           sources a = (if type a = u ''Opinion''
                        then [] else map strip (filter (\<lambda>source. source \<noteq> []) (butlast parts)))"
  using assms unfolding extract_fields_ahram_def
  apply (elim bind_e_InrE Let_InrE)
  apply clarify
  apply (simp (no_asm) only: article.select_convs)
  apply (intro exI conjI)
       apply assumption
      apply (rule refl)
     apply assumption
    apply (simp (no_asm))
   apply (rule refl)
  apply (rule refl)
  done

lemma Let_ifE:
  assumes "(let x = (if c then A else B) in f x) = r"
  obtains x where "x = A \<or> x = B" and "f x = r"
  using assms by (cases c) auto

lemma Let_forgetE:
  assumes "(let x = t in f x) = r"
  obtains x where "f x = r"
  using assms by simp

lemma Let_appendE:
  assumes "(let x = a @ b in f x) = r"
  obtains x rest where "x = a @ rest" and "f x = r"
  using assms by simp

lemma Let_default_keepE:
  assumes "(let x = (if 0 < length cs then cs else [p]) in f x) = r"
  obtains x where "x \<noteq> []" and "cs \<noteq> [] \<longrightarrow> x = cs" and "f x = r"
  using assms by (cases cs) auto

lemma Let_selectE:
  assumes "(let x = select css sp in f x) = r"
  obtains x where "x = select css sp" and "f x = r"
  using assms by simp

lemma dne_names:
  assumes "extract_fields_dne soup = Inr a"
  shows "\<exists>names header.
           dne_header_names soup = Inr header \<and> names \<noteq> [] \<and>
           take (length header) names = header \<and>
           ((type a = u ''Opinion'' \<and> authors a = names \<and> sources a = []) \<or>
            (type a = u ''News'' \<and> sources a = names \<and> authors a = []))"
  using assms unfolding extract_fields_dne_def
  apply (elim bind_e_InrE Let_default_keepE Let_appendE Let_ifE Let_selectE Let_forgetE)
  apply (drule Inr_inject)
  apply (auto simp: opinion_news dne_header_names_def)
  done

lemma ahram_names_fields:
  assumes "extract_fields_ahram soup = Inr a"
  shows "\<exists>names. ahram_names soup = Inr names \<and>
           ((type a = u ''Opinion'' \<and> authors a = names \<and> sources a = []) \<or>
            (type a = u ''News'' \<and> sources a = names \<and> authors a = []))"
  using ahram_fields[OF assms]
  by (auto simp: ahram_names_def opinion_news)

lemma egind_lists:
  assumes "extract_fields_egind soup = Inr a"
  shows "link_texts ''.field-field-author .field-items a'' soup = Inr (authors a) \<and>
         link_texts ''.field-field-source .field-items a'' soup = Inr (sources a)"
  using assms unfolding extract_fields_egind_def
  apply (elim bind_e_InrE Let_forgetE)
  apply (drule Inr_inject)
  apply (auto simp: link_texts_def)
  done

lemma ahram_monday_eval:
  "map_sum id (\<lambda>a. (date a, type a, authors a, sources a))
     (extract_fields_ahram (ahram_page ''Monday 5 Aug 2013'')) =
   Inr (\<lparr>year = 2013, month = 8, day = 5, hour = 0, minute = 0\<rparr>, u ''News'', [],
        [u ''Reuters'', u ''Ahram Online'', u ''Jadaliyya''])"
  unfolding extract_fields_ahram_def ahram_page_def
  by (simp add: ev cong: bind_e_weak_cong let_weak_cong)

lemma ahram_mon_eval: "extract_fields_ahram (ahram_page ''Mon 5 Aug 2013'') = Inl ValueError"
  unfolding extract_fields_ahram_def ahram_page_def
  by (simp add: ev cong: bind_e_weak_cong let_weak_cong)

lemma dne_roe_eval:
  "map_sum id (\<lambda>a. (type a, authors a, sources a)) (extract_fields_dne (dne_page [roe_span])) =
   Inr (u ''Opinion'', [u ''Jane Roe''], [])"
  unfolding extract_fields_dne_def dne_page_def roe_span_def
  by (simp add: ev cong: bind_e_weak_cong let_weak_cong)

lemma dne_roe_header: "dne_header_names (dne_page [roe_span]) = Inr [u ''Jane Roe'']"
  unfolding dne_header_names_def dne_page_def roe_span_def
  by (simp add: ev cong: bind_e_weak_cong let_weak_cong)

lemma map_sum_InrE:
  assumes "map_sum f g m = Inr y"
  obtains x where "m = Inr x" and "g x = y"
  using assms by (cases m) auto

text \<open>
  C5 (amended). Every article the al-Ahram extractor returns has the names of its source
  line in \<open>authors\<close> and no sources when it is an Opinion article, and in \<open>sources\<close>
  with no authors when it is a News article. Every article the Daily News Egypt
  extractor returns has a non-empty list of names that starts with the names of the page
  header, in \<open>authors\<close> with no sources for Opinion and in \<open>sources\<close> with no authors
  for News. The Egypt Independent extractor fills \<open>authors\<close> from the author links and
  \<open>sources\<close> from the source links, whatever the type.
\<close>

theorem authors_sources_exclusive:
  assumes "Article publication html_file = Inr a"
  shows "(publication = ''ahram'' \<longrightarrow>
           (\<exists>names. ahram_names html_file = Inr names \<and>
              ((type a = u ''Opinion'' \<and> authors a = names \<and> sources a = []) \<or>
               (type a = u ''News'' \<and> sources a = names \<and> authors a = [])))) \<and>
         (publication = ''dne'' \<longrightarrow>
           (\<exists>names header.
              dne_header_names html_file = Inr header \<and> names \<noteq> [] \<and>
              take (length header) names = header \<and>
              ((type a = u ''Opinion'' \<and> authors a = names \<and> sources a = []) \<or>
               (type a = u ''News'' \<and> sources a = names \<and> authors a = [])))) \<and>
         (publication = ''egind'' \<longrightarrow>
            link_texts ''.field-field-author .field-items a'' html_file = Inr (authors a) \<and>
            link_texts ''.field-field-source .field-items a'' html_file = Inr (sources a))"
proof (intro conjI impI)
  assume "publication = ''ahram''"
  with assms have "extract_fields_ahram html_file = Inr a" by (simp add: Article_def)
  then show "\<exists>names. ahram_names html_file = Inr names \<and>
              ((type a = u ''Opinion'' \<and> authors a = names \<and> sources a = []) \<or>
               (type a = u ''News'' \<and> sources a = names \<and> authors a = []))"
    by (rule ahram_names_fields)
next
  assume "publication = ''dne''"
  with assms have "extract_fields_dne html_file = Inr a" by (simp add: Article_def)
  then show "\<exists>names header.
              dne_header_names html_file = Inr header \<and> names \<noteq> [] \<and>
              take (length header) names = header \<and>
              ((type a = u ''Opinion'' \<and> authors a = names \<and> sources a = []) \<or>
               (type a = u ''News'' \<and> sources a = names \<and> authors a = []))"
    by (rule dne_names)
next
  assume "publication = ''egind''"
  with assms have e: "extract_fields_egind html_file = Inr a" by (simp add: Article_def)
  from egind_lists[OF e]
  show "link_texts ''.field-field-author .field-items a'' html_file = Inr (authors a)"
    and "link_texts ''.field-field-source .field-items a'' html_file = Inr (sources a)"
    by simp_all
qed

lemma egind_eval:
  "map_sum id (\<lambda>a. (authors a, sources a, type a))
     (extract_fields_egind (egind_page ''Mon, 05/08/2013 - 14:07'')) =
   Inr ([u ''Jane Doe''], [u ''Reuters''], u ''News'')"
  unfolding extract_fields_egind_def egind_page_def
  by (simp add: ev cong: bind_e_weak_cong let_weak_cong)

theorem authors_sources_exclusive_witness:
  "map_sum id (\<lambda>a. (type a, authors a, sources a))
     (Article ''ahram'' (ahram_page ''Monday 5 Aug 2013'')) =
     Inr (u ''News'', [], [u ''Reuters'', u ''Ahram Online'', u ''Jadaliyya'']) \<and>
   ahram_names (ahram_page ''Monday 5 Aug 2013'') =
     Inr [u ''Reuters'', u ''Ahram Online'', u ''Jadaliyya''] \<and>
   map_sum id (\<lambda>a. (type a, authors a, sources a)) (Article ''dne'' (dne_page [roe_span])) =
     Inr (u ''Opinion'', [u ''Jane Roe''], []) \<and>
   dne_header_names (dne_page [roe_span]) = Inr [u ''Jane Roe''] \<and>
   link_texts ''.field-field-author .field-items a'' (egind_page ''Mon, 05/08/2013 - 14:07'') =
     Inr [u ''Jane Doe''] \<and>
   link_texts ''.field-field-source .field-items a'' (egind_page ''Mon, 05/08/2013 - 14:07'') =
     Inr [u ''Reuters'']"
proof -
  have ev1: "map_sum id (\<lambda>a. (type a, authors a, sources a))
     (Article ''ahram'' (ahram_page ''Monday 5 Aug 2013'')) =
     Inr (u ''News'', [], [u ''Reuters'', u ''Ahram Online'', u ''Jadaliyya''])"
    using ahram_monday_eval
    by (cases "extract_fields_ahram (ahram_page ''Monday 5 Aug 2013'')") (auto simp: Article_def)
  then obtain a1 where a1: "Article ''ahram'' (ahram_page ''Monday 5 Aug 2013'') = Inr a1"
    and f1: "type a1 = u ''News''" "sources a1 = [u ''Reuters'', u ''Ahram Online'', u ''Jadaliyya'']"
    by (auto elim!: map_sum_InrE)
  from authors_sources_exclusive[OF a1] f1
  have n1: "ahram_names (ahram_page ''Monday 5 Aug 2013'') =
     Inr [u ''Reuters'', u ''Ahram Online'', u ''Jadaliyya'']"
    by (auto simp: opinion_news)
  have ev2: "map_sum id (\<lambda>a. (type a, authors a, sources a)) (Article ''dne'' (dne_page [roe_span])) =
     Inr (u ''Opinion'', [u ''Jane Roe''], [])"
    using dne_roe_eval by (simp add: Article_def)
  then obtain a2 where a2: "Article ''dne'' (dne_page [roe_span]) = Inr a2"
    and f2: "type a2 = u ''Opinion''" "authors a2 = [u ''Jane Roe'']"
    by (auto elim!: map_sum_InrE)
  from authors_sources_exclusive[OF a2] f2 dne_roe_header
  have n2: "dne_header_names (dne_page [roe_span]) = Inr (take 1 (authors a2))"
    by (auto simp: opinion_news)
  from egind_eval obtain a3 where
    a3: "Article ''egind'' (egind_page ''Mon, 05/08/2013 - 14:07'') = Inr a3"
    and f3: "authors a3 = [u ''Jane Doe'']" "sources a3 = [u ''Reuters'']"
    by (auto simp: Article_def elim!: map_sum_InrE)
  from authors_sources_exclusive[OF a3] f3
  have n3: "link_texts ''.field-field-author .field-items a'' (egind_page ''Mon, 05/08/2013 - 14:07'') =
              Inr [u ''Jane Doe'']"
           "link_texts ''.field-field-source .field-items a'' (egind_page ''Mon, 05/08/2013 - 14:07'') =
              Inr [u ''Reuters'']"
    by simp_all
  from ev1 n1 ev2 n2 f2 n3 show ?thesis by simp
qed

theorem egind_authors_and_sources_both_filled:
  "map_sum id (\<lambda>a. (authors a, sources a, type a))
     (Article ''egind'' (egind_page ''Mon, 05/08/2013 - 14:07'')) =
   Inr ([u ''Jane Doe''], [u ''Reuters''], u ''News'')"
  using egind_eval by (simp add: Article_def)

subsection \<open>Insert-or-ignore\<close>

lemma insert_name_names: "set (map snd (insert_name n tbl)) = insert n (set (map snd tbl))"
  by (auto simp: insert_name_def)

lemma fold_insert_name_names:
  "set (map snd (fold insert_name ns tbl)) = set ns \<union> set (map snd tbl)"
  by (induction ns arbitrary: tbl) (auto simp: insert_name_names simp del: set_map)

lemma fold_insert_name_present:
  "set ns \<subseteq> set (map snd tbl) \<Longrightarrow> fold insert_name ns tbl = tbl"
  by (induction ns arbitrary: tbl) (auto simp: insert_name_def)

lemma fold_insert_name_twice:
  "fold insert_name ns (fold insert_name ns tbl) = fold insert_name ns tbl"
  by (rule fold_insert_name_present) (simp add: fold_insert_name_names del: set_map)

lemma insert_name_distinct:
  "distinct (map snd tbl) \<Longrightarrow> distinct (map snd (insert_name n tbl))"
  by (auto simp: insert_name_def)

lemma fold_insert_name_distinct:
  "distinct (map snd tbl) \<Longrightarrow> distinct (map snd (fold insert_name ns tbl))"
  by (induction ns arbitrary: tbl) (auto simp: insert_name_distinct simp del: set_map)

lemma fold_insert_pair_set: "set (fold insert_pair ps tbl) = set ps \<union> set tbl"
  by (induction ps arbitrary: tbl) (auto simp: insert_pair_def)

lemma fold_insert_pair_present: "set ps \<subseteq> set tbl \<Longrightarrow> fold insert_pair ps tbl = tbl"
  by (induction ps arbitrary: tbl) (auto simp: insert_pair_def)

lemma fold_insert_pair_twice:
  "fold insert_pair ps (fold insert_pair ps tbl) = fold insert_pair ps tbl"
  by (rule fold_insert_pair_present) (simp add: fold_insert_pair_set)

lemma fold_insert_pair_distinct: "distinct tbl \<Longrightarrow> distinct (fold insert_pair ps tbl)"
  by (induction ps arbitrary: tbl) (auto simp: insert_pair_def)

lemma insert_article_urls:
  "set (map (\<lambda>x. article_url (snd x)) (insert_article r tbl)) =
     insert (article_url r) (set (map (\<lambda>x. article_url (snd x)) tbl))"
  by (auto simp: insert_article_def)

lemma insert_article_twice: "insert_article r (insert_article r tbl) = insert_article r tbl"
  unfolding insert_article_def[of r "insert_article r tbl"] insert_article_urls by simp

lemma insert_article_distinct:
  "distinct (map (\<lambda>x. article_url (snd x)) tbl) \<Longrightarrow>
   distinct (map (\<lambda>x. article_url (snd x)) (insert_article r tbl))"
  by (auto simp: insert_article_def)

lemma article_found:
  "map fst (filter (\<lambda>x. article_url (snd x) = article_url r) (insert_article r tbl)) \<noteq> []"
proof -
  have "article_url r \<in> set (map (\<lambda>x. article_url (snd x)) (insert_article r tbl))"
    unfolding insert_article_urls by simp
  then obtain x where "x \<in> set (insert_article r tbl)" "article_url (snd x) = article_url r"
    by auto
  then have "x \<in> set (filter (\<lambda>x. article_url (snd x) = article_url r) (insert_article r tbl))"
    by simp
  then show ?thesis by (auto simp del: set_filter filter_set)
qed

lemma url_row_of: "article_url (row_of a) = url a"
  by (simp add: row_of_def)

lemma write_to_db_result:
  "\<exists>i. idx0 (map fst (filter (\<lambda>r. article_url (snd r) = url a)
                        (insert_article (row_of a) (t_articles c)))) = Inr i \<and>
        write_to_db a c =
          Inr \<lparr>t_articles = insert_article (row_of a) (t_articles c),
               t_authors = fold insert_name (authors a) (t_authors c),
               t_sources = fold insert_name (sources a) (t_sources c),
               t_tags = fold insert_name (tags a) (t_tags c),
               articles_sources =
                 fold insert_pair
                   (map (\<lambda>s. (i, s)) (select_ids (sources a) (fold insert_name (sources a) (t_sources c))))
                   (articles_sources c),
               articles_authors =
                 fold insert_pair
                   (map (\<lambda>s. (i, s)) (select_ids (authors a) (fold insert_name (authors a) (t_authors c))))
                   (articles_authors c),
               articles_tags =
                 fold insert_pair
                   (map (\<lambda>s. (i, s)) (select_ids (tags a) (fold insert_name (tags a) (t_tags c))))
                   (articles_tags c)\<rparr>"
proof -
  from article_found[of "row_of a" "t_articles c"]
  obtain i rest where
    "map fst (filter (\<lambda>r. article_url (snd r) = url a)
        (insert_article (row_of a) (t_articles c))) = i # rest"
    by (cases "map fst (filter (\<lambda>r. article_url (snd r) = url a)
          (insert_article (row_of a) (t_articles c)))") (auto simp: url_row_of)
  then show ?thesis
    by (simp add: write_to_db_def idx0_def Let_def)
qed

text \<open>
  C3. Writing an article always succeeds, and writing the same article again succeeds and
  leaves the store exactly as the first write left it: no second article row for the URL,
  no second author, source or tag row for a name, no second junction row for a pair.
  A store whose unique keys occur once keeps that property.
\<close>

theorem write_to_db_idempotent:
  "\<exists>c1. write_to_db a c = Inr c1 \<and> write_to_db a c1 = Inr c1 \<and>
        (db_unique c \<longrightarrow> db_unique c1)"
proof -
  from write_to_db_result[of a c] obtain i c1 where
    i: "idx0 (map fst (filter (\<lambda>r. article_url (snd r) = url a)
                        (insert_article (row_of a) (t_articles c)))) = Inr i" and
    w: "write_to_db a c = Inr c1" and
    c1: "c1 = \<lparr>t_articles = insert_article (row_of a) (t_articles c),
               t_authors = fold insert_name (authors a) (t_authors c),
               t_sources = fold insert_name (sources a) (t_sources c),
               t_tags = fold insert_name (tags a) (t_tags c),
               articles_sources =
                 fold insert_pair
                   (map (\<lambda>s. (i, s)) (select_ids (sources a) (fold insert_name (sources a) (t_sources c))))
                   (articles_sources c),
               articles_authors =
                 fold insert_pair
                   (map (\<lambda>s. (i, s)) (select_ids (authors a) (fold insert_name (authors a) (t_authors c))))
                   (articles_authors c),
               articles_tags =
                 fold insert_pair
                   (map (\<lambda>s. (i, s)) (select_ids (tags a) (fold insert_name (tags a) (t_tags c))))
                   (articles_tags c)\<rparr>"
    by blast
  have again: "write_to_db a c1 = Inr c1"
    unfolding write_to_db_def Let_def
    by (simp add: c1 insert_article_twice i fold_insert_name_twice fold_insert_pair_twice)
  have "db_unique c1" if "db_unique c"
    using that unfolding db_unique_def c1
    by (simp add: insert_article_distinct fold_insert_name_distinct fold_insert_pair_distinct)
  with w again show ?thesis by blast
qed

lemma write_dne_article: "write_to_db dne_article empty_db = Inr dne_db"
  by (simp add: write_to_db_def empty_db_def dne_db_def insert_article_def insert_name_def
        insert_pair_def select_ids_def next_id_def idx0_def url_row_of Let_def
        dne_article_def)

theorem write_to_db_idempotent_witness:
  "write_to_db dne_article empty_db = Inr dne_db \<and> write_to_db dne_article dne_db = Inr dne_db"
  using write_to_db_idempotent[of dne_article empty_db] write_dne_article
  by auto

subsection \<open>The main loop\<close>

lemma main_loop_append:
  "main_loop publication (xs @ ys) st =
     (case main_loop publication xs st of
        (st1, None) \<Rightarrow> main_loop publication ys st1
      | (st1, Some e) \<Rightarrow> (st1, Some e))"
proof (induction xs arbitrary: st)
  case Nil
  then show ?case by simp
next
  case (Cons x xs)
  obtain name html_file where x: "x = (name, html_file)" by (cases x)
  show ?case
    unfolding x
    by (simp add: Cons.IH split: sum.splits)
qed

lemma main_loop_uncaught:
  assumes "Article publication html_file = Inl e" and "e \<noteq> IndexError"
      and "main_loop publication before st = (st1, None)"
  shows "main_loop publication (before @ (name, html_file) # rest) st = (st1, Some e)"
  using assms by (simp add: main_loop_append)

lemma empty_page_eval: "Article ''dne'' [] = Inl IndexError"
  unfolding Article_def extract_fields_dne_def
  by (simp add: ev cong: bind_e_weak_cong let_weak_cong)

text \<open>
  C4. When the extractor raises IndexError on a document that the run reaches, the
  document goes, as it is, to the folder of broken files, the store stays as it was, and
  the run goes on with the documents that follow.
\<close>

theorem index_error_quarantines_and_continues:
  assumes "Article publication html_file = Inl IndexError"
      and "main_loop publication before st = (st1, None)"
  shows "main_loop publication (before @ (name, html_file) # rest) st =
           main_loop publication rest (st1\<lparr>broken := broken st1 @ [(name, html_file)]\<rparr>) \<and>
         store (st1\<lparr>broken := broken st1 @ [(name, html_file)]\<rparr>) = store st1"
  using assms by (simp add: main_loop_append)

theorem index_error_quarantines_and_continues_witness:
  "Article ''dne'' [] = Inl IndexError \<and>
   main_loop ''dne'' [] start = (start, None) \<and>
   main_loop ''dne'' ([] @ (''broken.html'', []) # [(''next.html'', dne_page [author_span])]) start =
     (\<lparr>store = dne_db, broken = [(''broken.html'', [])]\<rparr>, None)"
  using index_error_quarantines_and_continues[of "''dne''" "[]" "[]" start start "''broken.html''"
          "[(''next.html'', dne_page [author_span])]"]
        empty_page_eval dne_eval write_dne_article
  by (simp add: Article_def start_def)

subsection \<open>Dates that do not parse\<close>

lemma strptime_error: "strptime d fmt = Inl e \<Longrightarrow> e = ValueError"
  by (auto simp: strptime_def Let_def split: option.splits prod.splits if_splits)

lemma egind_date_error:
  assumes "date_text ''egind'' soup = Inr d"
      and "strptime d ''%a, %d/%m/%Y - %H:%M'' = Inl ValueError"
  shows "extract_fields_egind soup = Inl ValueError"
  using assms(1)
  apply (simp add: date_text_def cong: bind_e_weak_cong)
  apply (elim bind_e_InrE)
  apply (drule Inr_inject)
  unfolding extract_fields_egind_def
  using assms(2)
  apply (simp add: Let_def cong: bind_e_weak_cong let_weak_cong)
  done

lemma ahram_date_error:
  assumes "date_text ''ahram'' soup = Inr d"
      and "strptime d ''%A %d %b %Y'' = Inl ValueError"
  shows "extract_fields_ahram soup = Inl ValueError"
  using assms(1)
  apply (simp add: date_text_def cong: bind_e_weak_cong)
  apply (elim bind_e_InrE)
  apply (drule Inr_inject)
  unfolding extract_fields_ahram_def
  using assms(2)
  apply (simp add: Let_def cong: bind_e_weak_cong let_weak_cong)
  done

lemma dne_date_error:
  assumes "date_text ''dne'' soup = Inr d"
      and "strptime d ''%B %d, %Y'' = Inl ValueError"
  shows "extract_fields_dne soup = Inl ValueError"
  using assms(1)
  apply (simp add: date_text_def cong: bind_e_weak_cong)
  apply (elim bind_e_InrE)
  apply (drule Inr_inject)
  unfolding extract_fields_dne_def
  using assms(2)
  apply (simp add: Let_def cong: bind_e_weak_cong let_weak_cong)
  done

lemma egind_allday_date_text:
  "date_text ''egind'' (egind_page ''Mon, 05/08/2013 - (All day)'') =
     Inr (u ''Mon, 05/08/2013 - (All day)'')"
  unfolding date_text_def egind_page_def
  by (simp add: ev cong: bind_e_weak_cong let_weak_cong)

lemma allday_strptime:
  "strptime (u ''Mon, 05/08/2013 - (All day)'') ''%a, %d/%m/%Y - %H:%M'' = Inl ValueError"
  by (simp add: ev cong: bind_e_weak_cong let_weak_cong)

text \<open>
  C8 (amended). When the date text of a document does not match the date format of its
  publication, \<^verbatim>\<open>strptime\<close> raises ValueError, the extractor passes it on, and the main
  loop, which catches IndexError only, stops there: the document is not moved to the
  broken files, the documents after it are not processed, and what was stored before
  stays.
\<close>

theorem date_format_error_stops_run:
  assumes "publication = ''egind'' \<or> publication = ''ahram'' \<or> publication = ''dne''"
      and "date_text publication html_file = Inr d"
      and "strptime d (date_format publication) = Inl e"
      and "main_loop publication before st = (st1, None)"
  shows "e = ValueError \<and> Article publication html_file = Inl ValueError \<and>
         main_loop publication (before @ (name, html_file) # rest) st = (st1, Some ValueError)"
proof -
  have e: "e = ValueError" using assms(3) by (rule strptime_error)
  have a: "Article publication html_file = Inl ValueError"
    using assms(1)
  proof (elim disjE)
    assume p: "publication = ''egind''"
    with assms(2,3) e show ?thesis
      by (simp add: Article_def date_format_def egind_date_error)
  next
    assume p: "publication = ''ahram''"
    with assms(2,3) e show ?thesis
      by (simp add: Article_def date_format_def ahram_date_error)
  next
    assume p: "publication = ''dne''"
    with assms(2,3) e show ?thesis
      by (simp add: Article_def date_format_def dne_date_error)
  qed
  from main_loop_uncaught[OF a _ assms(4)] e a show ?thesis by simp
qed

theorem date_format_error_stops_run_witness:
  "date_text ''egind'' (egind_page ''Mon, 05/08/2013 - (All day)'') =
     Inr (u ''Mon, 05/08/2013 - (All day)'') \<and>
   strptime (u ''Mon, 05/08/2013 - (All day)'') (date_format ''egind'') = Inl ValueError \<and>
   main_loop ''egind'' [] start = (start, None) \<and>
   Article ''egind'' (egind_page ''Mon, 05/08/2013 - (All day)'') = Inl ValueError \<and>
   main_loop ''egind'' ([] @ (''allday.html'', egind_page ''Mon, 05/08/2013 - (All day)'') #
                        [(''next.html'', egind_page ''Mon, 05/08/2013 - 14:07'')]) start =
     (start, Some ValueError)"
  using date_format_error_stops_run[of "''egind''" "egind_page ''Mon, 05/08/2013 - (All day)''"
          "u ''Mon, 05/08/2013 - (All day)''" ValueError "[]" start start "''allday.html''"
          "[(''next.html'', egind_page ''Mon, 05/08/2013 - 14:07'')]"]
        egind_allday_date_text allday_strptime
  by (simp add: date_format_def)

lemma egind_allday_eval:
  "extract_fields_egind (egind_page ''Mon, 05/08/2013 - (All day)'') = Inl ValueError"
  using egind_date_error[OF egind_allday_date_text allday_strptime] .

theorem date_format_error_not_quarantined:
  "main_loop ''egind'' [(''allday.html'', egind_page ''Mon, 05/08/2013 - (All day)''),
                        (''next.html'', egind_page ''Mon, 05/08/2013 - 14:07'')] start =
     (\<lparr>store = empty_db, broken = []\<rparr>, Some ValueError)"
  using egind_allday_eval by (simp add: Article_def start_def)

subsection \<open>An unknown publication\<close>

text \<open>
  C9 (amended). When the publication is none of the three names, the run stops at its
  first document with the exception of \<^verbatim>\<open>Article.__init__\<close>, before any document is
  parsed, stored or moved; a run over no documents ends without an exception.
\<close>

theorem unknown_publication_stops_at_first_document:
  assumes "publication \<noteq> ''egind''" and "publication \<noteq> ''ahram''" and "publication \<noteq> ''dne''"
  shows "main_loop publication ((name, html_file) # rest) st =
           (st, Some (Exception (u ''You must specify 'egind', 'ahram', or 'dne' as the publication.''))) \<and>
         main_loop publication [] st = (st, None)"
  using assms by (simp add: Article_def)

theorem unknown_publication_stops_at_first_document_witness:
  "''weekly'' \<noteq> ''egind'' \<and> ''weekly'' \<noteq> ''ahram'' \<and> ''weekly'' \<noteq> ''dne'' \<and>
   main_loop ''weekly'' [(''a.html'', dne_page [author_span])] start =
     (start, Some (Exception (u ''You must specify 'egind', 'ahram', or 'dne' as the publication.'')))"
  using unknown_publication_stops_at_first_document[of "''weekly''" "''a.html''"
          "dne_page [author_span]" "[]" start]
  by simp

theorem unknown_publication_no_documents:
  "main_loop ''weekly'' [] start = (start, None)"
  by simp

subsection \<open>A page without the author span\<close>

lemma idx0_nonempty: "xs \<noteq> [] \<Longrightarrow> \<exists>x. idx0 xs = Inr x"
  by (cases xs) (simp_all add: idx0_def)

lemma dne_no_span_error:
  assumes "select ''h2.posttitle'' soup \<noteq> []" and "select ''#postExcerpt'' soup \<noteq> []"
      and "date_text ''dne'' soup = Inr d" and "strptime d ''%B %d, %Y'' = Inr dt"
      and "select ''#crumbs'' soup \<noteq> []" and "select ''div.entry'' soup \<noteq> []"
      and "find_tag ''span'' [(''itemprop'', ''author'')] soup = None"
  shows "extract_fields_dne soup = Inl AttributeError"
proof -
  from assms(1,2,5,6)[THEN idx0_nonempty] obtain t s c e where
    sel: "idx0 (select ''h2.posttitle'' soup) = Inr t" "idx0 (select ''#postExcerpt'' soup) = Inr s"
         "idx0 (select ''#crumbs'' soup) = Inr c" "idx0 (select ''div.entry'' soup) = Inr e"
    by blast
  from assms(3) sel obtain dr ds where
    dt: "idx0 (select ''.metaStuff time'' soup) = Inr dr" "string_e dr = Inr ds" "strip ds = d"
    by (auto simp: date_text_def elim!: bind_e_InrE)
  show ?thesis
    unfolding extract_fields_dne_def
    by (simp add: sel dt assms(4,7) Let_def cong: bind_e_weak_cong let_weak_cong)
qed

lemma dne_no_span_facts:
  "select ''h2.posttitle'' (dne_page []) \<noteq> []" "select ''#postExcerpt'' (dne_page []) \<noteq> []"
  "date_text ''dne'' (dne_page []) = Inr (u ''August 5, 2013'')"
  "strptime (u ''August 5, 2013'') ''%B %d, %Y'' =
     Inr \<lparr>year = 2013, month = 8, day = 5, hour = 0, minute = 0\<rparr>"
  "select ''#crumbs'' (dne_page []) \<noteq> []" "select ''div.entry'' (dne_page []) \<noteq> []"
  "find_tag ''span'' [(''itemprop'', ''author'')] (dne_page []) = None"
  unfolding dne_page_def date_text_def
  by (simp_all add: ev cong: bind_e_weak_cong let_weak_cong)

text \<open>
  C10. A Daily News Egypt page that has its title, excerpt, date, breadcrumbs and entry
  but no \<^verbatim>\<open><span itemprop="author">\<close> makes the extractor raise AttributeError at the
  byline lookup; this is not IndexError, so the main loop does not move the file and the
  run stops there.
\<close>

theorem missing_author_span_stops_run:
  assumes "select ''h2.posttitle'' soup \<noteq> []" and "select ''#postExcerpt'' soup \<noteq> []"
      and "date_text ''dne'' soup = Inr d" and "strptime d ''%B %d, %Y'' = Inr dt"
      and "select ''#crumbs'' soup \<noteq> []" and "select ''div.entry'' soup \<noteq> []"
      and "find_tag ''span'' [(''itemprop'', ''author'')] soup = None"
      and "main_loop ''dne'' before st = (st1, None)"
  shows "Article ''dne'' soup = Inl AttributeError \<and>
         main_loop ''dne'' (before @ (name, soup) # rest) st = (st1, Some AttributeError)"
proof -
  have a: "Article ''dne'' soup = Inl AttributeError"
    using dne_no_span_error[OF assms(1-7)] by (simp add: Article_def)
  from main_loop_uncaught[OF a _ assms(8)] a show ?thesis by simp
qed

theorem missing_author_span_stops_run_witness:
  "find_tag ''span'' [(''itemprop'', ''author'')] (dne_page []) = None \<and>
   Article ''dne'' (dne_page []) = Inl AttributeError \<and>
   main_loop ''dne'' ([] @ (''nospan.html'', dne_page []) # [(''next.html'', dne_page [author_span])])
     start = (start, Some AttributeError)"
  using missing_author_span_stops_run[OF dne_no_span_facts, of "[]" start start "''nospan.html''"
          "[(''next.html'', dne_page [author_span])]"]
        dne_no_span_facts(7)
  by simp

subsection \<open>The al-Ahram source line\<close>

lemma scenario_parts:
  "re_split [u '','', u ''and'', u ''  '']
     (sub_class (\<lambda>c. c = 40 \<or> c = 41)
        (u ''Reuters and Ahram Online (Jadaliyya), Monday 5 Aug 2013'')) =
   [u ''Reuters '', u '' Ahram Online'', u ''Jadaliyya '', u '' Monday 5 Aug 2013'']"
  by (simp add: ev)

lemma scenario_date:
  "strptime (strip (u '' Monday 5 Aug 2013'')) ''%A %d %b %Y'' =
     Inr \<lparr>year = 2013, month = 8, day = 5, hour = 0, minute = 0\<rparr>"
  by (simp add: ev)

lemma scenario_names:
  "map strip (filter (\<lambda>source. source \<noteq> [])
      (butlast [u ''Reuters '', u '' Ahram Online'', u ''Jadaliyya '', u '' Monday 5 Aug 2013''])) =
   [u ''Reuters'', u ''Ahram Online'', u ''Jadaliyya'']"
  by (simp add: ev)

text \<open>
  C6 (amended). For every al-Ahram News article the extractor returns: the parentheses
  of the source line are replaced with spaces, the line is split on commas, \<^verbatim>\<open>and\<close> and
  double blanks, the last piece is parsed as the date with the full weekday name, the
  non-empty pieces before it are the sources, and there are no authors. When the line is
  "Reuters and Ahram Online (Jadaliyya), Monday 5 Aug 2013" the date is 2013-08-05 and
  the sources are Reuters, Ahram Online and Jadaliyya.
\<close>

theorem ahram_source_line_scenario:
  assumes "Article ''ahram'' soup = Inr a" and "type a = u ''News''"
  shows "\<exists>blob parts.
           idx0 (select ''#ContentPlaceHolder1_source'' (concat (map remove_comments soup))) = Inr blob \<and>
           parts = re_split [u '','', u ''and'', u ''  '']
                     (sub_class (\<lambda>c. c = 40 \<or> c = 41) (joined_contents blob)) \<and>
           strptime (strip (last parts)) ''%A %d %b %Y'' = Inr (date a) \<and>
           sources a = map strip (filter (\<lambda>source. source \<noteq> []) (butlast parts)) \<and>
           authors a = [] \<and>
           (joined_contents blob = u ''Reuters and Ahram Online (Jadaliyya), Monday 5 Aug 2013'' \<longrightarrow>
              date a = \<lparr>year = 2013, month = 8, day = 5, hour = 0, minute = 0\<rparr> \<and>
              sources a = [u ''Reuters'', u ''Ahram Online'', u ''Jadaliyya''])"
proof -
  from assms(1) have "extract_fields_ahram soup = Inr a" by (simp add: Article_def)
  from ahram_fields[OF this] obtain blob parts where
    b: "idx0 (select ''#ContentPlaceHolder1_source'' (concat (map remove_comments soup))) = Inr blob" and
    p: "parts = re_split [u '','', u ''and'', u ''  '']
                  (sub_class (\<lambda>c. c = 40 \<or> c = 41) (joined_contents blob))" and
    d: "strptime (strip (last parts)) ''%A %d %b %Y'' = Inr (date a)" and
    au: "authors a = (if type a = u ''Opinion''
                      then map strip (filter (\<lambda>source. source \<noteq> []) (butlast parts)) else [])" and
    so: "sources a = (if type a = u ''Opinion''
                      then [] else map strip (filter (\<lambda>source. source \<noteq> []) (butlast parts)))"
    by blast
  from au so assms(2) have
    au': "authors a = []" and
    so': "sources a = map strip (filter (\<lambda>source. source \<noteq> []) (butlast parts))"
    by (simp_all add: opinion_news)
  have sc: "date a = \<lparr>year = 2013, month = 8, day = 5, hour = 0, minute = 0\<rparr> \<and>
            sources a = [u ''Reuters'', u ''Ahram Online'', u ''Jadaliyya'']"
    if j: "joined_contents blob = u ''Reuters and Ahram Online (Jadaliyya), Monday 5 Aug 2013''"
  proof -
    from p j have parts: "parts = [u ''Reuters '', u '' Ahram Online'', u ''Jadaliyya '',
                                   u '' Monday 5 Aug 2013'']"
      by (simp only: scenario_parts)
    from d have "strptime (strip (u '' Monday 5 Aug 2013'')) ''%A %d %b %Y'' = Inr (date a)"
      unfolding parts by simp
    with scenario_date have "date a = \<lparr>year = 2013, month = 8, day = 5, hour = 0, minute = 0\<rparr>"
      by simp
    moreover from so' have "sources a = [u ''Reuters'', u ''Ahram Online'', u ''Jadaliyya'']"
      unfolding parts by (simp only: scenario_names)
    ultimately show ?thesis by simp
  qed
  from b p d so' au' sc show ?thesis by blast
qed

lemma ahram_monday_blob:
  "idx0 (select ''#ContentPlaceHolder1_source''
           (concat (map remove_comments (ahram_page ''Monday 5 Aug 2013'')))) =
     Inr (Tag (u ''div'') [(u ''id'', u ''ContentPlaceHolder1_source'')]
            [NavigableString (u ''Reuters and Ahram Online (Jadaliyya), '' @ u ''Monday 5 Aug 2013'')])"
  unfolding ahram_page_def
  by (simp add: ev)

theorem ahram_source_line_scenario_witness:
  "map_sum id (\<lambda>a. (date a, type a, authors a, sources a))
     (Article ''ahram'' (ahram_page ''Monday 5 Aug 2013'')) =
   Inr (\<lparr>year = 2013, month = 8, day = 5, hour = 0, minute = 0\<rparr>, u ''News'', [],
        [u ''Reuters'', u ''Ahram Online'', u ''Jadaliyya''])"
proof -
  from ahram_monday_eval obtain a where
    a: "Article ''ahram'' (ahram_page ''Monday 5 Aug 2013'') = Inr a" and
    t: "type a = u ''News''"
    by (auto simp: Article_def elim!: map_sum_InrE)
  have j: "joined_contents (Tag (u ''div'') [(u ''id'', u ''ContentPlaceHolder1_source'')]
            [NavigableString (u ''Reuters and Ahram Online (Jadaliyya), '' @ u ''Monday 5 Aug 2013'')]) =
           u ''Reuters and Ahram Online (Jadaliyya), Monday 5 Aug 2013''"
    by (simp add: ev)
  from ahram_source_line_scenario[OF a t] ahram_monday_blob j
  have "date a = \<lparr>year = 2013, month = 8, day = 5, hour = 0, minute = 0\<rparr> \<and>
        sources a = [u ''Reuters'', u ''Ahram Online'', u ''Jadaliyya''] \<and> authors a = []"
    by auto
  with a t show ?thesis by simp
qed

theorem ahram_abbreviated_weekday_rejected:
  "Article ''ahram'' (ahram_page ''Mon 5 Aug 2013'') = Inl ValueError"
  using ahram_mon_eval by (simp add: Article_def)

subsection \<open>The first line and the tag-free content of a Daily News Egypt page\<close>

lemma de_tagged_page:
  "de_tagged [u ''<p>By Jane Doe, John Smith and wire reports</p>''] =
     u ''By Jane Doe, John Smith and wire reports''"
  by (simp add: de_tagged_def ev)

text \<open>
  C1. On the Daily News Egypt opinion page whose first content paragraph is "By Jane Doe,
  John Smith and wire reports", with an empty author span in the header, the extractor
  returns the placeholder as the only author: neither Jane Doe nor John Smith is in the
  list.
\<close>

theorem dne_first_paragraph_byline_lost:
  "map_sum id (\<lambda>a. (type a, authors a, sources a)) (Article ''dne'' (dne_page [author_span])) =
     Inr (u ''Opinion'', [u ''Daily News Egypt''], []) \<and>
   u ''Jane Doe'' \<noteq> u ''Daily News Egypt'' \<and> u ''John Smith'' \<noteq> u ''Daily News Egypt''"
  using dne_eval by (simp add: Article_def dne_article_def u_def)

text \<open>
  C2. On the same page the content is the one paragraph; its markup removed it reads "By
  Jane Doe, John Smith and wire reports" (8 tokens), but \<open>content_no_tags\<close> holds the
  characters of the content, markup included, one to a line, and \<open>word_count\<close> is 34.
\<close>

theorem dne_content_no_tags_per_character:
  "map_sum id (\<lambda>a. (content a, content_no_tags a, word_count a))
     (Article ''dne'' (dne_page [author_span])) =
     Inr (u ''<p>By Jane Doe, John Smith and wire reports</p>'',
          join [10] (map (\<lambda>c. if c = 32 then [] else [c])
                       (u ''<p>By Jane Doe, John Smith and wire reports</p>'')),
          34) \<and>
   de_tagged [u ''<p>By Jane Doe, John Smith and wire reports</p>''] =
     u ''By Jane Doe, John Smith and wire reports'' \<and>
   token_count (u ''by jane doe  john smith and wire reports'') = 8"
  using dne_eval de_tagged_page
  by (simp add: Article_def dne_article_def length_split[symmetric]) (simp add: ev)

end
